theory Spec2Isabelle
  imports Complex_Main "HOL-Library.Char_ord" "HOL-Library.List_Lexorder" "HOL-Library.Multiset"
begin

section \<open>Python and ORM primitives\<close>

text \<open>
  The engine is Python over the Django ORM. A table is the list of its rows, a queryset
  is a filtered list, a nullable column is an \<open>option\<close>, a \<open>DateField\<close> is the ordinal
  number of its day and a \<open>DateTimeField\<close> is an instant counted in seconds. Text columns
  are ASCII strings.
\<close>

type_synonym date = int
type_synonym datetime = int

datatype pyval = PInt int | PFloat real | PStr string | PDate date

text \<open>A Python dict literal, in insertion order; \<open>map_of\<close> is the lookup.\<close>

type_synonym pydict = "(string \<times> pyval) list"

datatype py_error = TypeError | MultipleObjectsReturned

text \<open>\<open>timedelta(hours=24)\<close> in seconds.\<close>

definition hours24 :: datetime where
  "hours24 = 24 * 3600"

text \<open>Rounding to the nearest integer, a tie to the even one.\<close>

definition round_half_even :: "real \<Rightarrow> int" where
  "round_half_even x =
     (let f = \<lfloor>x\<rfloor>; r = x - of_int f
      in if r < 1 / 2 then f
         else if r > 1 / 2 then f + 1
         else if even f then f else f + 1)"

text \<open>
  A Python float is an IEEE 754 double. A finite double is modelled by the real number it
  stands for, and every arithmetic operation on floats returns the exact result rounded to
  the nearest double, a tie to the one with the even significand: \<open>fl x\<close> is that double, the
  integer nearest to \<open>x / 2^e\<close> scaled back by \<open>2^e\<close>, where \<open>e\<close> leaves a significand of 53
  bits. So \<open>x + y\<close> on floats is \<open>fl (x + y)\<close>, a float literal such as \<open>0.3\<close> is \<open>fl 0.3\<close>, and
  \<open>float(n)\<close> of an integer is \<open>fl (of_int n)\<close>; a literal that is a double, such as \<open>0.5\<close> or
  \<open>100\<close>, and a count of rows, which is far below \<open>2^53\<close>, are written without \<open>fl\<close>. The
  exponent is not bounded: the model follows the code as long as no magnitude leaves the
  range of the normal doubles, \<open>2^-1022\<close> to \<open>2^1024\<close>; infinities and NaN are outside it.
\<close>

definition fl :: "real \<Rightarrow> real" where
  "fl x =
     (if x = 0 then 0
      else let e = \<lfloor>log 2 \<bar>x\<bar>\<rfloor> - 52
           in of_int (round_half_even (x / 2 powr of_int e)) * 2 powr of_int e)"

text \<open>
  \<open>sum(xs)\<close> of a list of floats: the values are added from left to right, each sum rounded.
\<close>

definition fsum :: "real list \<Rightarrow> real" where
  "fsum xs = foldl (\<lambda>s x. fl (s + x)) 0 xs"

text \<open>
  \<open>Avg\<close> of a nullable float column: NULLs are skipped, no value gives NULL; the database
  adds the values in doubles, in the order of the rows, and divides by their number.
\<close>

definition Avg :: "real option list \<Rightarrow> real option" where
  "Avg col =
     (let vs = concat (map (\<lambda>v. case v of None \<Rightarrow> [] | Some x \<Rightarrow> [x]) col)
      in if vs = [] then None else Some (fl (fsum vs / real (length vs))))"

text \<open>Truthiness of an optional float: \<open>None\<close> and \<open>0.0\<close> are false.\<close>

definition truthy :: "real option \<Rightarrow> bool" where
  "truthy v = (case v of None \<Rightarrow> False | Some x \<Rightarrow> x \<noteq> 0)"

text \<open>
  \<open>round(x, ndigits)\<close> of a float: the double nearest to the multiple of \<open>10^-ndigits\<close> that
  is nearest to the value of \<open>x\<close>, a tie between two multiples going to the even one.
\<close>

definition py_round :: "real \<Rightarrow> nat \<Rightarrow> real" where
  "py_round x ndigits = fl (of_int (round_half_even (x * 10 ^ ndigits)) / 10 ^ ndigits)"

text \<open>\<open>int(x)\<close> of a float truncates towards zero.\<close>

definition py_int :: "real \<Rightarrow> int" where
  "py_int x = (if 0 \<le> x then \<lfloor>x\<rfloor> else \<lceil>x\<rceil>)"

text \<open>\<open>str.strip()\<close>, \<open>str.lower()\<close> and the substring test \<open>p in s\<close>, on ASCII.\<close>

definition is_space :: "char \<Rightarrow> bool" where
  "is_space c = ((of_char c :: nat) \<in> {9, 10, 11, 12, 13, 28, 29, 30, 31, 32})"

definition py_strip :: "string \<Rightarrow> string" where
  "py_strip s = dropWhile is_space (rev (dropWhile is_space (rev s)))"

definition lower_char :: "char \<Rightarrow> char" where
  "lower_char c =
     (if 65 \<le> (of_char c :: nat) \<and> (of_char c :: nat) \<le> 90
      then char_of ((of_char c :: nat) + 32) else c)"

definition py_lower :: "string \<Rightarrow> string" where
  "py_lower s = map lower_char s"

fun starts_with :: "string \<Rightarrow> string \<Rightarrow> bool" where
  "starts_with [] s = True"
| "starts_with (p # ps) [] = False"
| "starts_with (p # ps) (c # cs) = (p = c \<and> starts_with ps cs)"

fun py_in :: "string \<Rightarrow> string \<Rightarrow> bool" where
  "py_in p [] = (p = [])"
| "py_in p (c # cs) = (starts_with p (c # cs) \<or> py_in p cs)"

section \<open>Tables\<close>

record StandupSession =
  ss_id :: nat
  ss_user :: nat
  ss_project :: nat
  ss_date :: date
  ss_status :: string
  ss_yesterday_work :: string
  ss_today_plan :: string
  ss_blockers :: string
  ss_sentiment_score :: "real option"

record WorkItemReference =
  wi_standup_session :: nat
  wi_status :: string

record TeamMember =
  tm_id :: nat
  tm_user :: nat
  tm_project :: nat
  tm_is_active :: bool

text \<open>
  \<open>TeamHealthAlert\<close>. The title, the description and the context data are formatted
  text that no check reads back; they are left out of the row and of the result dict.
\<close>

record TeamHealthAlert =
  ha_id :: nat
  ha_project :: nat
  ha_team_member :: "nat option"
  ha_alert_type :: string
  ha_severity :: string
  ha_status :: string
  ha_confidence_score :: real
  ha_created_at :: datetime

text \<open>
  \<open>TeamHealthTrend\<close>, the trend point: the columns \<open>calculate_trend\<close> reads or writes.
\<close>

record TeamHealthTrend =
  tp_project :: nat
  tp_metric_type :: string
  tp_date :: date
  tp_current_value :: real
  tp_previous_value :: "real option"
  tp_change_percentage :: "real option"
  tp_trend_direction :: string
  tp_rolling_average_7d :: "real option"
  tp_rolling_average_30d :: "real option"

text \<open>
  The clocks one run reads: \<open>demo_now()\<close>, the engine's clock (a fixed instant in demo
  mode), its calendar day \<open>demo_now().date()\<close>, and \<open>timezone.now()\<close>, the wall clock
  that \<open>auto_now_add\<close> stamps on a created row. A run is taken to read each of them once.
\<close>

record clock =
  demo_now :: datetime
  demo_today :: date
  wall_now :: datetime

section \<open>Early-warning engine: dashboard, early warning system\<close>

definition SENTIMENT_DECLINE_THRESHOLD :: real where
  "SENTIMENT_DECLINE_THRESHOLD = - fl 0.3"

definition SENTIMENT_TREND_THRESHOLD :: real where
  "SENTIMENT_TREND_THRESHOLD = - fl 0.2"

definition BURNOUT_INDICATOR_THRESHOLD :: nat where
  "BURNOUT_INDICATOR_THRESHOLD = 3"

text \<open>
  The model's \<open>Meta.ordering = ['-created_at', '-severity']\<close>: \<open>alert_before a b\<close> when
  row \<open>a\<close> sorts strictly before row \<open>b\<close>. \<open>first_alert\<close> is \<open>.first()\<close> of a queryset; among
  rows that tie on both keys it takes the earliest of the table.
\<close>

definition alert_before :: "TeamHealthAlert \<Rightarrow> TeamHealthAlert \<Rightarrow> bool" where
  "alert_before a b =
     (ha_created_at a > ha_created_at b \<or>
      (ha_created_at a = ha_created_at b \<and> ha_severity a > ha_severity b))"

fun first_alert :: "TeamHealthAlert list \<Rightarrow> TeamHealthAlert option" where
  "first_alert [] = None"
| "first_alert (a # as) =
     Some (fold (\<lambda>b best. if alert_before b best then b else best) as a)"

text \<open>A fresh primary key: one more than the largest in the table.\<close>

definition fresh_id :: "TeamHealthAlert list \<Rightarrow> nat" where
  "fresh_id alerts = Suc (fold max (map ha_id alerts) 0)"

text \<open>
  \<open>_create_alert\<close>: the dict it returns and the alert table after it. The created row
  has the model's default \<open>status='active'\<close> and \<open>created_at = timezone.now()\<close>.
\<close>

definition create_alert ::
  "clock \<Rightarrow> nat \<Rightarrow> string \<Rightarrow> string \<Rightarrow> real \<Rightarrow> nat option \<Rightarrow> TeamHealthAlert list
     \<Rightarrow> pydict \<times> TeamHealthAlert list" where
  "create_alert c project alert_type severity confidence_score team_member alerts =
     (let existing_alert =
            first_alert (filter (\<lambda>a. ha_project a = project \<and> ha_alert_type a = alert_type \<and>
                                     ha_status a = ''active'' \<and>
                                     ha_created_at a \<ge> demo_now c - hours24) alerts)
      in case existing_alert of
           Some e \<Rightarrow> ([(''alert'', PStr ''duplicate''), (''existing_id'', PInt (int (ha_id e)))], alerts)
         | None \<Rightarrow>
             (let alert = \<lparr>ha_id = fresh_id alerts, ha_project = project,
                           ha_team_member = team_member, ha_alert_type = alert_type,
                           ha_severity = severity, ha_status = ''active'',
                           ha_confidence_score = confidence_score,
                           ha_created_at = wall_now c\<rparr>
              in ([(''alert'', PStr ''created''), (''id'', PInt (int (ha_id alert))),
                   (''severity'', PStr severity), (''confidence'', PFloat confidence_score)],
                  alerts @ [alert])))"

text \<open>The queryset \<open>recent_sessions\<close> of \<open>_check_sentiment_decline\<close>.\<close>

definition sentiment_recent_sessions ::
  "clock \<Rightarrow> nat \<Rightarrow> StandupSession list \<Rightarrow> StandupSession list" where
  "sentiment_recent_sessions c project sessions =
     (let end_date = demo_today c; start_date = end_date - 14
      in filter (\<lambda>s. ss_project s = project \<and> ss_date s \<ge> start_date \<and>
                      ss_status s = ''completed'' \<and> ss_sentiment_score s \<noteq> None) sessions)"

definition check_sentiment_decline ::
  "clock \<Rightarrow> nat \<Rightarrow> StandupSession list \<Rightarrow> TeamHealthAlert list
     \<Rightarrow> pydict list \<times> TeamHealthAlert list" where
  "check_sentiment_decline c project sessions alerts =
     (let end_date = demo_today c;
          start_date = end_date - 14;
          recent_sessions = sentiment_recent_sessions c project sessions
      in if length recent_sessions < 5 then ([], alerts)
         else
           let avg_sentiment = Avg (map ss_sentiment_score recent_sessions);
               mid_date = start_date + 7;
               older_sentiment =
                 Avg (map ss_sentiment_score (filter (\<lambda>s. ss_date s < mid_date) recent_sessions));
               newer_sentiment =
                 Avg (map ss_sentiment_score (filter (\<lambda>s. ss_date s \<ge> mid_date) recent_sessions))
           in if truthy avg_sentiment \<and> the avg_sentiment < SENTIMENT_DECLINE_THRESHOLD then
                let severity = (if the avg_sentiment < - 0.5 then ''critical'' else ''high'');
                    (alert, alerts') =
                      create_alert c project ''sentiment_decline'' severity
                        (min 1 (fl (\<bar>the avg_sentiment\<bar> * 2))) None alerts
                in ([alert], alerts')
              else if truthy older_sentiment \<and> truthy newer_sentiment \<and>
                      the newer_sentiment <
                        fl (the older_sentiment - SENTIMENT_TREND_THRESHOLD) then
                let (alert, alerts') =
                      create_alert c project ''sentiment_decline'' ''medium''
                        (min 1 (fl (fl (the older_sentiment - the newer_sentiment) * 3)))
                        None alerts
                in ([alert], alerts')
              else ([], alerts))"

text \<open>\<open>_assess_content_quality\<close>.\<close>

definition assess_content_quality :: "StandupSession \<Rightarrow> real" where
  "assess_content_quality session =
     (let score0 = 0;
          score1 = (if ss_yesterday_work session \<noteq> [] \<and>
                       length (py_strip (ss_yesterday_work session)) > 20
                    then fl (score0 + fl 0.4) else score0);
          score2 = (if ss_today_plan session \<noteq> [] \<and>
                       length (py_strip (ss_today_plan session)) > 20
                    then fl (score1 + fl 0.4) else score1);
          content = py_lower (ss_yesterday_work session @ '' '' @ ss_today_plan session);
          quality_indicators = [''ticket'', ''bug'', ''feature'', ''test'', ''review'',
                                ''deploy'', ''fix'', ''implement''];
          score3 = (if list_ex (\<lambda>indicator. py_in indicator content) quality_indicators
                    then fl (score2 + fl 0.2) else score2)
      in min 1 score3)"

text \<open>\<open>_calculate_burnout_score\<close>.\<close>

definition calculate_burnout_score :: "clock \<Rightarrow> TeamMember \<Rightarrow> StandupSession list \<Rightarrow> nat" where
  "calculate_burnout_score c member sessions =
     (let end_date = demo_today c;
          start_date = end_date - 14;
          user_sessions =
            filter (\<lambda>s. ss_user s = tm_user member \<and> ss_project s = tm_project member \<and>
                         ss_date s \<ge> start_date \<and> ss_status s = ''completed'') sessions
      in if length user_sessions = 0 then 0
         else
           let avg_sentiment = Avg (map ss_sentiment_score user_sessions);
               score1 = (if truthy avg_sentiment \<and> the avg_sentiment < - fl 0.3 then 2 else 0);
               blocker_sessions = filter (\<lambda>s. ss_blockers s \<noteq> []) user_sessions;
               blocker_rate = fl (real (length blocker_sessions) / real (length user_sessions));
               score2 = (if blocker_rate > 0.5 then score1 + 1 else score1);
               low_quality_count =
                 length (filter (\<lambda>session. assess_content_quality session < fl 0.3)
                           user_sessions);
               score3 = (if real low_quality_count > fl (real (length user_sessions) * fl 0.4)
                         then score2 + 1 else score2);
               expected_sessions = 14;
               score4 = (if real (length user_sessions) < fl (expected_sessions * fl 0.6)
                         then score3 + 1 else score3)
           in score4)"

text \<open>
  \<open>_check_team_member_burnout\<close>: the loop over the active members of the project, in
  the order of the member table.
\<close>

fun burnout_loop ::
  "clock \<Rightarrow> nat \<Rightarrow> StandupSession list \<Rightarrow> TeamMember list \<Rightarrow> pydict list \<Rightarrow> TeamHealthAlert list
     \<Rightarrow> pydict list \<times> TeamHealthAlert list" where
  "burnout_loop c project sessions [] alerts db = (alerts, db)"
| "burnout_loop c project sessions (member # members) alerts db =
     (let burnout_score = calculate_burnout_score c member sessions
      in if burnout_score \<ge> BURNOUT_INDICATOR_THRESHOLD then
           let severity = (if burnout_score \<ge> 5 then ''critical'' else ''high'');
               (alert, db') =
                 create_alert c project ''team_member_burnout'' severity
                   (min 1 (fl (real burnout_score / 5))) (Some (tm_id member)) db
           in burnout_loop c project sessions members (alerts @ [alert]) db'
         else burnout_loop c project sessions members alerts db)"

definition check_team_member_burnout ::
  "clock \<Rightarrow> nat \<Rightarrow> TeamMember list \<Rightarrow> StandupSession list \<Rightarrow> TeamHealthAlert list
     \<Rightarrow> pydict list \<times> TeamHealthAlert list" where
  "check_team_member_burnout c project members sessions db =
     (let team_members = filter (\<lambda>m. tm_project m = project \<and> tm_is_active m) members
      in burnout_loop c project sessions team_members [] db)"

section \<open>Metric calculators and composite score: dashboard services, MVPTeamHealthService\<close>

text \<open>
  The four calculators take the project of the service, the session table (and the
  work-item table) and the date range. \<open>date__range\<close> includes both ends. The midpoint
  \<open>start_date + (end_date - start_date) // 2\<close> floors, as \<open>div\<close> on \<open>int\<close> does.
  \<open>last_updated\<close> is the end date (the source formats it as text). A rate is a float, and its
  display value \<open>round(rate, 1)\<close> a float, when the division is made; where the conditional
  expression falls back to the integer \<open>0\<close>, \<open>round(0, 1)\<close> is the integer \<open>0\<close>.
\<close>

definition get_participation_metrics ::
  "nat \<Rightarrow> StandupSession list \<Rightarrow> date \<Rightarrow> date \<Rightarrow> pydict" where
  "get_participation_metrics project table start_date end_date =
     (let sessions = filter (\<lambda>s. ss_project s = project \<and>
                                  start_date \<le> ss_date s \<and> ss_date s \<le> end_date) table
      in if sessions = [] then
           [(''rate'', PInt 0), (''trend'', PStr ''no_data''), (''status'', PStr ''concerning'')]
         else
           let total_sessions = length sessions;
               completed_sessions = length (filter (\<lambda>s. ss_status s = ''completed'') sessions);
               participation_rate =
                 (if total_sessions > 0
                  then fl (fl (real completed_sessions / real total_sessions) * 100) else 0);
               mid_date = start_date + (end_date - start_date) div 2;
               first_half = length (filter (\<lambda>s. ss_date s < mid_date) sessions);
               second_half = length (filter (\<lambda>s. ss_date s \<ge> mid_date) sessions);
               trend_direction =
                 (if first_half = 0 then ''stable''
                  else if real second_half > fl (real first_half * fl 1.1) then ''improving''
                  else if real second_half < fl (real first_half * fl 0.9) then ''declining''
                  else ''stable'');
               status = (if participation_rate \<ge> 70 then ''good''
                         else if participation_rate < 50 then ''concerning'' else ''average'')
           in [(''rate'', if total_sessions > 0 then PFloat (py_round participation_rate 1)
                          else PInt 0),
               (''trend'', PStr trend_direction),
               (''status'', PStr status),
               (''data_points'', PInt (int total_sessions)),
               (''last_updated'', PDate end_date)])"

definition get_sentiment_metrics ::
  "nat \<Rightarrow> StandupSession list \<Rightarrow> date \<Rightarrow> date \<Rightarrow> pydict" where
  "get_sentiment_metrics project table start_date end_date =
     (let sessions = filter (\<lambda>s. ss_sentiment_score s \<noteq> None)
                        (filter (\<lambda>s. ss_project s = project \<and>
                                     start_date \<le> ss_date s \<and> ss_date s \<le> end_date) table)
      in if sessions = [] then
           [(''score'', PInt 0), (''trend'', PStr ''no_data''), (''status'', PStr ''neutral'')]
         else
           let sentiment_scores =
                 map (\<lambda>s. the (ss_sentiment_score s))
                   (filter (\<lambda>s. ss_sentiment_score s \<noteq> None) sessions);
               avg_sentiment =
                 (if sentiment_scores \<noteq> []
                  then fl (fsum sentiment_scores / real (length sentiment_scores)) else 0);
               avg_score_100 = fl (avg_sentiment * 100);
               mid_date = start_date + (end_date - start_date) div 2;
               first_half_scores =
                 map (\<lambda>s. the (ss_sentiment_score s))
                   (filter (\<lambda>s. ss_sentiment_score s \<noteq> None)
                      (filter (\<lambda>s. ss_date s < mid_date) sessions));
               second_half_scores =
                 map (\<lambda>s. the (ss_sentiment_score s))
                   (filter (\<lambda>s. ss_sentiment_score s \<noteq> None)
                      (filter (\<lambda>s. ss_date s \<ge> mid_date) sessions));
               trend_direction =
                 (if first_half_scores = [] then ''stable''
                  else
                    let first_avg =
                          fl (fsum first_half_scores / real (length first_half_scores));
                        second_avg =
                          (if second_half_scores \<noteq> []
                           then fl (fsum second_half_scores / real (length second_half_scores))
                           else first_avg)
                    in if second_avg > fl (first_avg * fl 1.05) then ''improving''
                       else if second_avg < fl (first_avg * fl 0.95) then ''declining''
                       else ''stable'');
               status = (if avg_score_100 \<ge> 70 then ''good''
                         else if avg_score_100 < 40 then ''concerning'' else ''average'')
           in [(''score'', if sentiment_scores \<noteq> [] then PFloat (py_round avg_score_100 1)
                           else PInt 0),
               (''trend'', PStr trend_direction),
               (''status'', PStr status),
               (''data_points'', PInt (int (length sentiment_scores))),
               (''last_updated'', PDate end_date)])"

text \<open>
  \<open>blockers\<close> is a text column that is never NULL, so \<open>exclude(blockers__isnull=True)\<close>
  excludes nothing.
\<close>

definition get_blocker_metrics ::
  "nat \<Rightarrow> StandupSession list \<Rightarrow> date \<Rightarrow> date \<Rightarrow> pydict" where
  "get_blocker_metrics project table start_date end_date =
     (let sessions = filter (\<lambda>s. ss_project s = project \<and>
                                  start_date \<le> ss_date s \<and> ss_date s \<le> end_date) table
      in if sessions = [] then
           [(''resolution_rate'', PInt 0), (''trend'', PStr ''no_data''),
            (''status'', PStr ''concerning'')]
         else
           let total_sessions_with_blockers =
                 length (filter (\<lambda>s. ss_blockers s \<noteq> []) sessions);
               total_sessions = length sessions;
               resolved_blockers = py_int (fl (real total_sessions_with_blockers * fl 0.7));
               resolution_rate =
                 (if total_sessions_with_blockers > 0
                  then fl (fl (real_of_int resolved_blockers / real total_sessions_with_blockers)
                           * 100)
                  else 0);
               mid_date = start_date + (end_date - start_date) div 2;
               first_half_blockers =
                 length (filter (\<lambda>s. ss_blockers s \<noteq> [])
                           (filter (\<lambda>s. ss_date s < mid_date) sessions));
               second_half_blockers =
                 length (filter (\<lambda>s. ss_blockers s \<noteq> [])
                           (filter (\<lambda>s. ss_date s \<ge> mid_date) sessions));
               trend_direction =
                 (if first_half_blockers = 0 then ''stable''
                  else if real second_half_blockers < fl (real first_half_blockers * fl 0.8)
                    then ''improving''
                  else if real second_half_blockers > fl (real first_half_blockers * fl 1.2)
                    then ''declining''
                  else ''stable'');
               status = (if resolution_rate \<ge> 80 then ''good''
                         else if resolution_rate < 60 then ''concerning'' else ''average'')
           in [(''resolution_rate'',
                if total_sessions_with_blockers > 0 then PFloat (py_round resolution_rate 1)
                else PInt 0),
               (''trend'', PStr trend_direction),
               (''status'', PStr status),
               (''data_points'', PInt (int total_sessions_with_blockers)),
               (''last_updated'', PDate end_date)])"

text \<open>
  The join \<open>standup_session__project\<close>, \<open>standup_session__date\<close>: a work item is selected
  when the session it refers to satisfies the condition.
\<close>

definition wi_session_sat ::
  "StandupSession list \<Rightarrow> (StandupSession \<Rightarrow> bool) \<Rightarrow> WorkItemReference \<Rightarrow> bool" where
  "wi_session_sat table P w = list_ex (\<lambda>s. ss_id s = wi_standup_session w \<and> P s) table"

definition get_work_item_metrics ::
  "nat \<Rightarrow> StandupSession list \<Rightarrow> WorkItemReference list \<Rightarrow> date \<Rightarrow> date \<Rightarrow> pydict" where
  "get_work_item_metrics project table items start_date end_date =
     (let work_items =
            filter (wi_session_sat table (\<lambda>s. ss_project s = project \<and>
                                              start_date \<le> ss_date s \<and> ss_date s \<le> end_date)) items
      in if work_items = [] then
           [(''completion_rate'', PInt 0), (''trend'', PStr ''no_data''),
            (''status'', PStr ''no_data'')]
         else
           let total_items = length work_items;
               completed_items =
                 length (filter (\<lambda>w. wi_status w \<in> set [''completed'', ''done'', ''approved''])
                           work_items);
               completion_rate =
                 (if total_items > 0
                  then fl (fl (real completed_items / real total_items) * 100) else 0);
               mid_date = start_date + (end_date - start_date) div 2;
               first_half_items =
                 length (filter (wi_session_sat table (\<lambda>s. ss_date s < mid_date)) work_items);
               second_half_items =
                 length (filter (wi_session_sat table (\<lambda>s. ss_date s \<ge> mid_date)) work_items);
               trend_direction =
                 (if first_half_items = 0 then ''stable''
                  else if real second_half_items > fl (real first_half_items * fl 1.1)
                    then ''improving''
                  else if real second_half_items < fl (real first_half_items * fl 0.9)
                    then ''declining''
                  else ''stable'');
               status = (if completion_rate \<ge> 75 then ''good''
                         else if completion_rate < 50 then ''concerning'' else ''average'')
           in [(''completion_rate'', if total_items > 0 then PFloat (py_round completion_rate 1)
                                     else PInt 0),
               (''trend'', PStr trend_direction),
               (''status'', PStr status),
               (''data_points'', PInt (int total_items)),
               (''last_updated'', PDate end_date)])"

text \<open>
  \<open>_calculate_overall_health_score\<close>. \<open>metrics.get(name, {})\<close> and \<open>metric_data.get(key, 0)\<close>
  default a missing entry; the product \<open>normalised * weight\<close> is a float product, of
  \<open>float(n)\<close> when the value is an integer \<open>n\<close>, and raises \<open>TypeError\<close> on a value that is not a
  number. The weights are the float literals 0.3, 0.25, 0.25 and 0.2.
\<close>

definition dict_get :: "pydict \<Rightarrow> string \<Rightarrow> pyval \<Rightarrow> pyval" where
  "dict_get d k dflt = (case map_of d k of None \<Rightarrow> dflt | Some v \<Rightarrow> v)"

definition times_weight :: "pyval \<Rightarrow> real \<Rightarrow> py_error + real" where
  "times_weight v weight =
     (case v of PInt n \<Rightarrow> Inr (fl (fl (of_int n) * weight))
              | PFloat x \<Rightarrow> Inr (fl (x * weight))
              | PStr s \<Rightarrow> Inl TypeError
              | PDate d \<Rightarrow> Inl TypeError)"

definition weights :: "(string \<times> real) list" where
  "weights = [(''participation'', fl 0.3), (''sentiment'', 0.25), (''blockers'', 0.25),
              (''work_items'', fl 0.2)]"

definition normalised :: "string \<Rightarrow> pydict \<Rightarrow> pyval" where
  "normalised metric_name metric_data =
     (if metric_name = ''participation'' then dict_get metric_data ''rate'' (PInt 0)
      else if metric_name = ''sentiment'' then dict_get metric_data ''score'' (PInt 0)
      else if metric_name = ''blockers'' then dict_get metric_data ''resolution_rate'' (PInt 0)
      else if metric_name = ''work_items'' then dict_get metric_data ''completion_rate'' (PInt 0)
      else PInt 0)"

text \<open>\<open>metrics.get(metric_name, {})\<close>.\<close>

definition metric_of :: "(string \<times> pydict) list \<Rightarrow> string \<Rightarrow> pydict" where
  "metric_of metrics metric_name =
     (case map_of metrics metric_name of None \<Rightarrow> [] | Some d \<Rightarrow> d)"

fun weighted_scores ::
  "(string \<times> pydict) list \<Rightarrow> (string \<times> real) list \<Rightarrow> py_error + real list" where
  "weighted_scores metrics [] = Inr []"
| "weighted_scores metrics ((metric_name, weight) # ws) =
     (let metric_data = metric_of metrics metric_name
      in case times_weight (normalised metric_name metric_data) weight of
           Inl e \<Rightarrow> Inl e
         | Inr x \<Rightarrow> (case weighted_scores metrics ws of
                       Inl e \<Rightarrow> Inl e
                     | Inr scores \<Rightarrow> Inr (x # scores)))"

definition calculate_overall_health_score :: "(string \<times> pydict) list \<Rightarrow> py_error + pydict" where
  "calculate_overall_health_score metrics =
     (case weighted_scores metrics weights of
        Inl e \<Rightarrow> Inl e
      | Inr scores \<Rightarrow>
          (let overall_score = fsum scores;
               status = (if overall_score \<ge> 80 then ''excellent''
                         else if overall_score \<ge> 70 then ''good''
                         else if overall_score < 50 then ''concerning'' else ''average'')
           in Inr [(''score'', PFloat (py_round overall_score 1)),
                   (''status'', PStr status),
                   (''max_score'', PInt 100)]))"

section \<open>Trend store: dashboard models, TeamHealthTrend.calculate_trend\<close>

text \<open>
  \<open>order_by('-date').first()\<close>: the row of the latest date, the earliest of the table
  among rows of that date.
\<close>

fun latest_point :: "TeamHealthTrend list \<Rightarrow> TeamHealthTrend option" where
  "latest_point [] = None"
| "latest_point (r # rs) =
     Some (fold (\<lambda>b best. if tp_date b > tp_date best then b else best) rs r)"

definition same_key :: "nat \<Rightarrow> string \<Rightarrow> date \<Rightarrow> TeamHealthTrend \<Rightarrow> bool" where
  "same_key project metric_type d r =
     (tp_project r = project \<and> tp_metric_type r = metric_type \<and> tp_date r = d)"

text \<open>
  \<open>update_or_create\<close> on the key (project, metric_type, date): no row of the key creates
  one, one row is overwritten with the defaults, several raise.
\<close>

definition update_or_create ::
  "TeamHealthTrend \<Rightarrow> TeamHealthTrend list \<Rightarrow> py_error + (TeamHealthTrend \<times> TeamHealthTrend list)" where
  "update_or_create new table =
     (let key = same_key (tp_project new) (tp_metric_type new) (tp_date new)
      in case filter key table of
           [] \<Rightarrow> Inr (new, table @ [new])
         | [old] \<Rightarrow> Inr (new, map (\<lambda>r. if key r then new else r) table)
         | old # old' # others \<Rightarrow> Inl MultipleObjectsReturned)"

text \<open>
  \<open>calculate_trend\<close>; \<open>today\<close> is \<open>timezone.now().date()\<close>, read when no date is given.
\<close>

definition calculate_trend ::
  "date \<Rightarrow> nat \<Rightarrow> string \<Rightarrow> real \<Rightarrow> date option \<Rightarrow> TeamHealthTrend list
     \<Rightarrow> py_error + (TeamHealthTrend \<times> TeamHealthTrend list)" where
  "calculate_trend today project metric_type current_value date_arg table =
     (let d = (case date_arg of None \<Rightarrow> today | Some d' \<Rightarrow> d');
          previous_trend =
            latest_point (filter (\<lambda>r. tp_project r = project \<and> tp_metric_type r = metric_type \<and>
                                       tp_date r < d) table);
          previous_value = (case previous_trend of None \<Rightarrow> None
                            | Some p \<Rightarrow> Some (tp_current_value p));
          (change_percentage, trend_direction) =
            (if previous_value \<noteq> None \<and> the previous_value \<noteq> 0 then
               let change = fl (fl (fl (current_value - the previous_value) / the previous_value)
                                * 100)
               in (Some change,
                   if change > 5 then ''improving''
                   else if change < - 5 then ''declining''
                   else if \<bar>change\<bar> > 15 then ''volatile''
                   else ''stable'')
             else (None, ''stable''));
          date_7d_ago = d - 7;
          date_30d_ago = d - 30;
          recent_trends =
            filter (\<lambda>r. tp_project r = project \<and> tp_metric_type r = metric_type \<and>
                         tp_date r \<ge> date_7d_ago \<and> tp_date r < d) table;
          rolling_7d = Avg (map (\<lambda>r. Some (tp_current_value r)) recent_trends);
          monthly_trends =
            filter (\<lambda>r. tp_project r = project \<and> tp_metric_type r = metric_type \<and>
                         tp_date r \<ge> date_30d_ago \<and> tp_date r < d) table;
          rolling_30d = Avg (map (\<lambda>r. Some (tp_current_value r)) monthly_trends)
      in update_or_create
           \<lparr>tp_project = project, tp_metric_type = metric_type, tp_date = d,
            tp_current_value = current_value, tp_previous_value = previous_value,
            tp_change_percentage = change_percentage, tp_trend_direction = trend_direction,
            tp_rolling_average_7d = rolling_7d, tp_rolling_average_30d = rolling_30d\<rparr>
           table)"

section \<open>Predictive analytics: dashboard, PredictiveAnalyticsService\<close>

text \<open>
  \<open>_calculate_trend_slope\<close>: the least-squares slope of \<open>y_values\<close> against \<open>x_values\<close>. Every
  caller passes \<open>list(range(n))\<close> for \<open>x_values\<close>, a list of Python integers: their sums and
  products are exact integers, converted to a double where they meet a float.
\<close>

definition calculate_trend_slope :: "int list \<Rightarrow> real list \<Rightarrow> real" where
  "calculate_trend_slope x_values y_values =
     (if length x_values \<noteq> length y_values \<or> length x_values < 2 then 0
      else
        let n = int (length x_values);
            sum_x = sum_list x_values;
            sum_y = fsum y_values;
            sum_xy = fsum (map (\<lambda>(x, y). fl (fl (of_int x) * y)) (zip x_values y_values));
            sum_x_squared = sum_list (map (\<lambda>x. x * x) x_values);
            denominator = n * sum_x_squared - sum_x * sum_x
        in if denominator = 0 then 0
           else fl (fl (fl (fl (of_int n) * sum_xy) - fl (fl (of_int sum_x) * sum_y))
                    / fl (of_int denominator)))"

text \<open>
  \<open>_calculate_volatility\<close>: the population standard deviation. The powers \<open>x ** 2\<close> and
  \<open>v ** 0.5\<close> are taken as correctly rounded.
\<close>

definition calculate_volatility :: "real list \<Rightarrow> real" where
  "calculate_volatility vals =
     (if length vals < 2 then 0
      else
        let mean = fl (fsum vals / real (length vals));
            variance = fl (fsum (map (\<lambda>x. fl ((fl (x - mean)) ^ 2)) vals) / real (length vals))
        in fl (sqrt variance))"

text \<open>
  A \<open>defaultdict(list)\<close> filled by \<open>d[k].append(v)\<close>, in insertion order of its keys.
\<close>

fun dict_append :: "('k \<times> 'v list) list \<Rightarrow> 'k \<Rightarrow> 'v \<Rightarrow> ('k \<times> 'v list) list" where
  "dict_append [] k v = [(k, [v])]"
| "dict_append ((k', vs) # rest) k v =
     (if k' = k then (k', vs @ [v]) # rest else (k', vs) # dict_append rest k v)"

definition group_by_key :: "('k \<times> 'v) list \<Rightarrow> ('k \<times> 'v list) list" where
  "group_by_key kvs = fold (\<lambda>(k, v) d. dict_append d k v) kvs []"

text \<open>\<open>date.weekday()\<close> of an ordinal day: day 1 is a Monday, weekday 0.\<close>

definition weekday :: "date \<Rightarrow> nat" where
  "weekday d = nat ((d + 6) mod 7)"

definition weekday_names :: "string list" where
  "weekday_names = [''Monday'', ''Tuesday'', ''Wednesday'', ''Thursday'', ''Friday'',
                    ''Saturday'', ''Sunday'']"

definition detect_weekly_patterns :: "date list \<Rightarrow> real list \<Rightarrow> (string \<times> real) list" where
  "detect_weekly_patterns dates vals =
     (let weekday_values = group_by_key (map (\<lambda>(d, v). (weekday d, v)) (zip dates vals))
      in map (\<lambda>(wd, values_list).
                (weekday_names ! wd,
                 py_round (fl (fsum values_list / real (length values_list))) 3))
           (filter (\<lambda>(wd, values_list). values_list \<noteq> []) weekday_values))"

record future_prediction =
  fp_date :: date
  fp_predicted_sentiment :: real
  fp_confidence :: real

record sentiment_prediction =
  current_trend :: string
  trend_slope :: real
  recent_average :: real
  historical_average :: real
  future_predictions :: "future_prediction list"
  weekly_patterns :: "(string \<times> real) list"
  volatility :: real
  data_points :: nat

text \<open>
  \<open>_predict_sentiment_trends\<close>. The dict with the key \<open>error\<close> that it returns on fewer
  than five scored sessions is \<open>Inl\<close> of the message; it is a value, not an exception.
\<close>

definition predict_sentiment_trends :: "StandupSession list \<Rightarrow> string + sentiment_prediction" where
  "predict_sentiment_trends sessions =
     (let sentiment_data =
            map (\<lambda>s. (ss_date s, the (ss_sentiment_score s)))
              (filter (\<lambda>s. ss_sentiment_score s \<noteq> None) sessions)
      in if length sentiment_data < 5 then Inl ''Insufficient sentiment data for prediction''
         else
           let daily_sentiment = group_by_key sentiment_data;
               date_score_pairs =
                 sort_key fst
                   (map (\<lambda>(d, scores). (d, fl (fsum scores / real (length scores))))
                      daily_sentiment);
               dates = map fst date_score_pairs;
               daily_averages = map snd date_score_pairs;
               slope = calculate_trend_slope (map int [0..<length daily_averages]) daily_averages;
               last_score = last daily_averages;
               predictions =
                 map (\<lambda>i. \<lparr>fp_date = last dates + int i,
                            fp_predicted_sentiment =
                              py_round (max 0 (min 1 (fl (last_score + fl (slope * real i))))) 3,
                            fp_confidence = max 0.5 (fl (1 - fl (real i * fl 0.1)))\<rparr>) [1..<8];
               recent_avg = fl (fsum (drop (length daily_averages - 7) daily_averages)
                                / real (min 7 (length daily_averages)));
               historical_avg = fl (fsum daily_averages / real (length daily_averages))
           in Inr \<lparr>current_trend = (if slope > fl 0.01 then ''improving''
                                     else if slope < - fl 0.01 then ''declining''
                                     else ''stable''),
                   trend_slope = py_round slope 4,
                   recent_average = py_round recent_avg 3,
                   historical_average = py_round historical_avg 3,
                   future_predictions = predictions,
                   weekly_patterns = detect_weekly_patterns dates daily_averages,
                   volatility = py_round (calculate_volatility daily_averages) 3,
                   data_points = length daily_averages\<rparr>)"

text \<open>
  The row that \<open>calculate_trend\<close> hands to \<open>update_or_create\<close> for the date \<open>d\<close>: the key
  and the defaults, as computed from the table (see \<open>calculate_trend_eq\<close>).
\<close>

definition trend_record ::
  "nat \<Rightarrow> string \<Rightarrow> real \<Rightarrow> date \<Rightarrow> TeamHealthTrend list \<Rightarrow> TeamHealthTrend" where
  "trend_record project metric_type current_value d table =
     (let previous_trend =
            latest_point (filter (\<lambda>r. tp_project r = project \<and> tp_metric_type r = metric_type \<and>
                                       tp_date r < d) table);
          previous_value = (case previous_trend of None \<Rightarrow> None
                            | Some p \<Rightarrow> Some (tp_current_value p));
          (change_percentage, trend_direction) =
            (if previous_value \<noteq> None \<and> the previous_value \<noteq> 0 then
               let change = fl (fl (fl (current_value - the previous_value) / the previous_value)
                                * 100)
               in (Some change,
                   if change > 5 then ''improving''
                   else if change < - 5 then ''declining''
                   else if \<bar>change\<bar> > 15 then ''volatile''
                   else ''stable'')
             else (None, ''stable''));
          rolling_7d = Avg (map (\<lambda>r. Some (tp_current_value r))
             (filter (\<lambda>r. tp_project r = project \<and> tp_metric_type r = metric_type \<and>
                         tp_date r \<ge> d - 7 \<and> tp_date r < d) table));
          rolling_30d = Avg (map (\<lambda>r. Some (tp_current_value r))
             (filter (\<lambda>r. tp_project r = project \<and> tp_metric_type r = metric_type \<and>
                         tp_date r \<ge> d - 30 \<and> tp_date r < d) table))
      in \<lparr>tp_project = project, tp_metric_type = metric_type, tp_date = d,
            tp_current_value = current_value, tp_previous_value = previous_value,
            tp_change_percentage = change_percentage, tp_trend_direction = trend_direction,
            tp_rolling_average_7d = rolling_7d, tp_rolling_average_30d = rolling_30d\<rparr>)"

section \<open>Notions used in the statements\<close>

text \<open>The number that a Python value stands for, if it is one.\<close>

definition num_of :: "pyval \<Rightarrow> real option" where
  "num_of v = (case v of PInt n \<Rightarrow> Some (of_int n) | PFloat x \<Rightarrow> Some x
               | PStr s \<Rightarrow> None | PDate d \<Rightarrow> None)"

text \<open>
  The trend rule as the specification words it, on the counts of the first and of the
  second half of the range; the products are float products, as in the code.
\<close>

definition spec_trend :: "nat \<Rightarrow> nat \<Rightarrow> string" where
  "spec_trend first_half second_half =
     (if first_half = 0 then ''stable''
      else if real second_half > fl (real first_half * fl 1.1) then ''improving''
      else if real second_half < fl (real first_half * fl 0.9) then ''declining''
      else ''stable'')"

text \<open>The same rule with the direction inverted, as the specification has it for blockers.\<close>

definition spec_trend_inverted :: "nat \<Rightarrow> nat \<Rightarrow> string" where
  "spec_trend_inverted first_half second_half =
     (if first_half = 0 then ''stable''
      else if real second_half > fl (real first_half * fl 1.1) then ''declining''
      else if real second_half < fl (real first_half * fl 0.9) then ''improving''
      else ''stable'')"

text \<open>The sessions of a project dated within a range, both ends included.\<close>

definition in_range :: "nat \<Rightarrow> date \<Rightarrow> date \<Rightarrow> StandupSession \<Rightarrow> bool" where
  "in_range project start_date end_date s =
     (ss_project s = project \<and> start_date \<le> ss_date s \<and> ss_date s \<le> end_date)"

text \<open>
  The rules the blocker and the sentiment calculators apply instead: counts with the
  bounds 0.8 and 1.2, and means of the scores with the bounds 1.05 and 0.95.
\<close>

definition blocker_trend :: "nat \<Rightarrow> nat \<Rightarrow> string" where
  "blocker_trend first_half second_half =
     (if first_half = 0 then ''stable''
      else if real second_half < fl (real first_half * fl 0.8) then ''improving''
      else if real second_half > fl (real first_half * fl 1.2) then ''declining''
      else ''stable'')"

definition mean_trend :: "real list \<Rightarrow> real list \<Rightarrow> string" where
  "mean_trend first_half_scores second_half_scores =
     (if first_half_scores = [] then ''stable''
      else
        let first_avg = fl (fsum first_half_scores / real (length first_half_scores));
            second_avg =
              (if second_half_scores \<noteq> []
               then fl (fsum second_half_scores / real (length second_half_scores))
               else first_avg)
        in if second_avg > fl (first_avg * fl 1.05) then ''improving''
           else if second_avg < fl (first_avg * fl 0.95) then ''declining''
           else ''stable'')"

definition scores_of :: "StandupSession list \<Rightarrow> real list" where
  "scores_of sessions =
     map (\<lambda>s. the (ss_sentiment_score s)) (filter (\<lambda>s. ss_sentiment_score s \<noteq> None) sessions)"

text \<open>
  The condition of the duplicate check of \<open>_create_alert\<close>, and the row it creates.
\<close>

definition dedup_window :: "clock \<Rightarrow> nat \<Rightarrow> string \<Rightarrow> TeamHealthAlert \<Rightarrow> bool" where
  "dedup_window c project alert_type a =
     (ha_project a = project \<and> ha_alert_type a = alert_type \<and> ha_status a = ''active'' \<and>
      ha_created_at a \<ge> demo_now c - hours24)"

definition new_alert ::
  "clock \<Rightarrow> nat \<Rightarrow> string \<Rightarrow> string \<Rightarrow> real \<Rightarrow> nat option \<Rightarrow> TeamHealthAlert list \<Rightarrow> TeamHealthAlert" where
  "new_alert c project alert_type severity confidence_score team_member alerts =
     \<lparr>ha_id = fresh_id alerts, ha_project = project, ha_team_member = team_member,
      ha_alert_type = alert_type, ha_severity = severity, ha_status = ''active'',
      ha_confidence_score = confidence_score, ha_created_at = wall_now c\<rparr>"

text \<open>
  The members for whom \<open>_check_team_member_burnout\<close> calls \<open>_create_alert\<close>, in the order
  of the loop, and the severity and the confidence it passes.
\<close>

definition qualifying ::
  "clock \<Rightarrow> nat \<Rightarrow> TeamMember list \<Rightarrow> StandupSession list \<Rightarrow> TeamMember list" where
  "qualifying c project members sessions =
     filter (\<lambda>m. BURNOUT_INDICATOR_THRESHOLD \<le> calculate_burnout_score c m sessions)
       (filter (\<lambda>m. tm_project m = project \<and> tm_is_active m) members)"

definition burnout_severity :: "clock \<Rightarrow> TeamMember \<Rightarrow> StandupSession list \<Rightarrow> string" where
  "burnout_severity c m sessions =
     (if calculate_burnout_score c m sessions \<ge> 5 then ''critical'' else ''high'')"

definition burnout_confidence :: "clock \<Rightarrow> TeamMember \<Rightarrow> StandupSession list \<Rightarrow> real" where
  "burnout_confidence c m sessions =
     min 1 (fl (real (calculate_burnout_score c m sessions) / 5))"

text \<open>
  The daily averages of a history whose average rises by \<open>d\<close> a day from \<open>a\<close> on day \<open>d0\<close>,
  over \<open>n\<close> consecutive days.
\<close>

definition linear_days :: "date \<Rightarrow> real \<Rightarrow> real \<Rightarrow> nat \<Rightarrow> (date \<times> real) list" where
  "linear_days d0 a d n = map (\<lambda>k. (d0 + int k, a + d * real k)) [0..<n]"

section \<open>Example data\<close>

text \<open>A trend point of project 1 for the sentiment metric on day 0, with value 100.\<close>

definition point0 :: TeamHealthTrend where
  "point0 = \<lparr>tp_project = 1, tp_metric_type = ''sentiment'', tp_date = 0,
            tp_current_value = 100, tp_previous_value = None,
            tp_change_percentage = None, tp_trend_direction = ''stable'',
            tp_rolling_average_7d = None, tp_rolling_average_30d = None\<rparr>"

text \<open>A clock: day 20, with both instants at the start of that day.\<close>

definition clock0 :: clock where
  "clock0 = \<lparr>demo_now = 1728000, demo_today = 20, wall_now = 1728000\<rparr>"

definition member1 :: TeamMember where
  "member1 = \<lparr>tm_id = 1, tm_user = 1, tm_project = 1, tm_is_active = True\<rparr>"

text \<open>
  The only session of user 1 in the window: negative sentiment, a blocker, and two short
  texts without a work keyword.
\<close>

definition worn_session :: StandupSession where
  "worn_session = \<lparr>ss_id = 1, ss_user = 1, ss_project = 1, ss_date = 15,
                    ss_status = ''completed'', ss_yesterday_work = ''meetings'',
                    ss_today_plan = ''more meetings'', ss_blockers = ''waiting for access'',
                    ss_sentiment_score = Some (- 0.5)\<rparr>"

text \<open>
  Four metric results as the calculators shape them: one of three sessions completed
  (rate 33.3), no scored session, no blocker, no work item.
\<close>

definition third_metrics :: "(string \<times> pydict) list" where
  "third_metrics =
     [(''participation'', [(''rate'', PFloat (fl 33.3)), (''trend'', PStr ''stable''),
                           (''status'', PStr ''concerning''), (''data_points'', PInt 3),
                           (''last_updated'', PDate 7)]),
      (''sentiment'', [(''score'', PInt 0), (''trend'', PStr ''no_data''),
                       (''status'', PStr ''neutral'')]),
      (''blockers'', [(''resolution_rate'', PInt 0), (''trend'', PStr ''stable''),
                      (''status'', PStr ''concerning''), (''data_points'', PInt 0),
                      (''last_updated'', PDate 7)]),
      (''work_items'', [(''completion_rate'', PInt 0), (''trend'', PStr ''no_data''),
                        (''status'', PStr ''no_data'')])]"

text \<open>
  Three scored sessions of project 1, all of sentiment 0.5: one on day 0, two on day 5.
\<close>

definition level_sessions :: "StandupSession list" where
  "level_sessions =
     [\<lparr>ss_id = 1, ss_user = 1, ss_project = 1, ss_date = 0, ss_status = ''completed'',
       ss_yesterday_work = [], ss_today_plan = [], ss_blockers = [],
       ss_sentiment_score = Some 0.5\<rparr>,
      \<lparr>ss_id = 2, ss_user = 1, ss_project = 1, ss_date = 5, ss_status = ''completed'',
       ss_yesterday_work = [], ss_today_plan = [], ss_blockers = [],
       ss_sentiment_score = Some 0.5\<rparr>,
      \<lparr>ss_id = 3, ss_user = 2, ss_project = 1, ss_date = 5, ss_status = ''completed'',
       ss_yesterday_work = [], ss_today_plan = [], ss_blockers = [],
       ss_sentiment_score = Some 0.5\<rparr>]"

text \<open>One hour after \<open>clock0\<close>, on the same day.\<close>

definition clock1 :: clock where
  "clock1 = \<lparr>demo_now = 1731600, demo_today = 20, wall_now = 1731600\<rparr>"

text \<open>
  Ten sessions of project 1 on the days 7 to 16, within the 14 days before day 20: eight
  completed with the sentiment score \<open>s\<close>, two pending without a score.
\<close>

definition scored_session :: "nat \<Rightarrow> real \<Rightarrow> StandupSession" where
  "scored_session k s =
     \<lparr>ss_id = k, ss_user = 1, ss_project = 1, ss_date = int k, ss_status = ''completed'',
      ss_yesterday_work = ''worked on the login page'', ss_today_plan = ''continue'',
      ss_blockers = [], ss_sentiment_score = Some s\<rparr>"

definition pending_session :: "nat \<Rightarrow> StandupSession" where
  "pending_session k =
     \<lparr>ss_id = k, ss_user = 1, ss_project = 1, ss_date = int k, ss_status = ''pending'',
      ss_yesterday_work = [], ss_today_plan = [], ss_blockers = [],
      ss_sentiment_score = None\<rparr>"

definition ten_sessions :: "real \<Rightarrow> StandupSession list" where
  "ten_sessions s =
     [scored_session 7 s, scored_session 8 s, scored_session 9 s, scored_session 10 s,
      scored_session 11 s, scored_session 12 s, scored_session 13 s, scored_session 14 s,
      pending_session 15, pending_session 16]"

text \<open>A second member with a session like that of the first.\<close>

definition member2 :: TeamMember where
  "member2 = \<lparr>tm_id = 2, tm_user = 2, tm_project = 1, tm_is_active = True\<rparr>"

definition worn_session2 :: StandupSession where
  "worn_session2 = worn_session\<lparr>ss_id := 2, ss_user := 2\<rparr>"

text \<open>A burnout alert of project 1 created one hour before \<open>clock0\<close>, since acknowledged.\<close>

definition acknowledged_alert :: TeamHealthAlert where
  "acknowledged_alert =
     \<lparr>ha_id = 1, ha_project = 1, ha_team_member = Some 1,
      ha_alert_type = ''team_member_burnout'', ha_severity = ''high'',
      ha_status = ''acknowledged'', ha_confidence_score = fl 0.6, ha_created_at = 1724400\<rparr>"

text \<open>
  One completed session a day on \<open>n\<close> consecutive days from day \<open>d0\<close>, the score rising by
  \<open>d\<close> a day from \<open>a\<close>.
\<close>

definition linear_session :: "date \<Rightarrow> real \<Rightarrow> real \<Rightarrow> nat \<Rightarrow> StandupSession" where
  "linear_session d0 a d k =
     \<lparr>ss_id = k, ss_user = 1, ss_project = 1, ss_date = d0 + int k, ss_status = ''completed'',
      ss_yesterday_work = ''worked on the login page'', ss_today_plan = ''continue'',
      ss_blockers = [], ss_sentiment_score = Some (a + d * real k)\<rparr>"

definition linear_sessions :: "date \<Rightarrow> real \<Rightarrow> real \<Rightarrow> nat \<Rightarrow> StandupSession list" where
  "linear_sessions d0 a d n = map (linear_session d0 a d) [0..<n]"

text \<open>
  Eleven sessions of project 1 with a blocker, by eleven users: five on the days 0 to 2,
  six on the days 3 to 5.
\<close>

definition blocked_session :: "nat \<Rightarrow> date \<Rightarrow> StandupSession" where
  "blocked_session k dt =
     \<lparr>ss_id = k, ss_user = k, ss_project = 1, ss_date = dt, ss_status = ''completed'',
      ss_yesterday_work = ''worked on the login page'', ss_today_plan = ''continue'',
      ss_blockers = ''waiting for access'', ss_sentiment_score = None\<rparr>"

definition blocked_sessions :: "StandupSession list" where
  "blocked_sessions =
     [blocked_session 1 0, blocked_session 2 0, blocked_session 3 1, blocked_session 4 1,
      blocked_session 5 2,
      blocked_session 6 3, blocked_session 7 3, blocked_session 8 4, blocked_session 9 4,
      blocked_session 10 5, blocked_session 11 5]"

section \<open>Rounding to the nearest double\<close>

named_theorems fl_values

lemma fl_exponent:
  assumes "2 ^ 52 \<le> \<bar>x\<bar> / 2 powr of_int e" and "\<bar>x\<bar> / 2 powr of_int e < 2 ^ 53"
  shows "\<lfloor>log 2 \<bar>x\<bar>\<rfloor> - 52 = e"
proof -
  have p: "0 < (2::real) powr of_int e" by simp
  have x0: "0 < \<bar>x\<bar>"
  proof (rule ccontr)
    assume "\<not> 0 < \<bar>x\<bar>"
    then have "\<bar>x\<bar> = 0" by simp
    with assms(1) show False by simp
  qed
  have l: "2 powr (52 + of_int e) \<le> \<bar>x\<bar>"
  proof -
    have "2 ^ 52 * 2 powr of_int e \<le> \<bar>x\<bar>" using assms(1) p by (simp add: pos_le_divide_eq)
    moreover have "(2::real) powr (52 + of_int e) = 2 ^ 52 * 2 powr of_int e"
      by (simp add: powr_add)
    ultimately show ?thesis by simp
  qed
  have u: "\<bar>x\<bar> < 2 powr (53 + of_int e)"
  proof -
    have "\<bar>x\<bar> < 2 ^ 53 * 2 powr of_int e" using assms(2) p by (simp add: pos_divide_less_eq)
    moreover have "(2::real) powr (53 + of_int e) = 2 ^ 53 * 2 powr of_int e"
      by (simp add: powr_add)
    ultimately show ?thesis by simp
  qed
  have "52 + of_int e \<le> log 2 \<bar>x\<bar>" using l x0 by (simp add: le_log_iff)
  moreover have "log 2 \<bar>x\<bar> < 53 + of_int e" using u x0 by (simp add: log_less_iff)
  ultimately have "\<lfloor>log 2 \<bar>x\<bar>\<rfloor> = 52 + e" by (simp add: floor_eq_iff)
  then show ?thesis by simp
qed

lemma fl_scaled:
  assumes "2 ^ 52 \<le> \<bar>x\<bar> / 2 powr of_int e" and "\<bar>x\<bar> / 2 powr of_int e < 2 ^ 53"
  shows "fl x = of_int (round_half_even (x / 2 powr of_int e)) * 2 powr of_int e"
proof -
  have "x \<noteq> 0" using assms(1) by auto
  then show ?thesis unfolding fl_def Let_def fl_exponent[OF assms] by simp
qed


lemma fl_zero [simp]: "fl 0 = 0"
  by (simp add: fl_def)

lemma fl_up:
  assumes "2 ^ 52 \<le> \<bar>x\<bar> * 2 ^ k" and "\<bar>x\<bar> * 2 ^ k < 2 ^ 53"
  shows "fl x = of_int (round_half_even (x * 2 ^ k)) / 2 ^ k"
proof -
  have p: "(2::real) powr of_int (- int k) = 1 / 2 ^ k"
    by (simp add: powr_minus powr_realpow divide_inverse)
  have a: "2 ^ 52 \<le> \<bar>x\<bar> / 2 powr of_int (- int k)" unfolding p using assms(1) by simp
  have b: "\<bar>x\<bar> / 2 powr of_int (- int k) < 2 ^ 53" unfolding p using assms(2) by simp
  show ?thesis unfolding fl_scaled[OF a b] p by simp
qed

lemma fl_down:
  assumes "2 ^ 52 \<le> \<bar>x\<bar> / 2 ^ k" and "\<bar>x\<bar> / 2 ^ k < 2 ^ 53"
  shows "fl x = of_int (round_half_even (x / 2 ^ k)) * 2 ^ k"
proof -
  have p: "(2::real) powr of_int (int k) = 2 ^ k"
    by (simp add: powr_realpow)
  have a: "2 ^ 52 \<le> \<bar>x\<bar> / 2 powr of_int (int k)" unfolding p using assms(1) by simp
  have b: "\<bar>x\<bar> / 2 powr of_int (int k) < 2 ^ 53" unfolding p using assms(2) by simp
  show ?thesis unfolding fl_scaled[OF a b] p by simp
qed

lemma round_half_even_of_int [simp]: "round_half_even (of_int m) = m"
  by (simp add: round_half_even_def)

lemma round_half_even_eval:
  assumes "of_int m - 1 / 2 < y" and "y < of_int m + 1 / 2"
  shows "round_half_even y = m"
proof -
  have "\<lfloor>y\<rfloor> = m \<or> \<lfloor>y\<rfloor> = m - 1" using assms by linarith
  then show ?thesis
  proof
    assume f: "\<lfloor>y\<rfloor> = m"
    then show ?thesis using assms unfolding round_half_even_def Let_def f by simp
  next
    assume f: "\<lfloor>y\<rfloor> = m - 1"
    then show ?thesis using assms unfolding round_half_even_def Let_def f by simp
  qed
qed

lemma round_half_even_tie:
  assumes "y = of_int m + 1 / 2"
  shows "round_half_even y = (if even m then m else m + 1)"
proof -
  have f: "\<lfloor>y\<rfloor> = m" unfolding assms by linarith
  show ?thesis unfolding round_half_even_def Let_def f using assms by simp
qed

lemma fl_eval_up:
  assumes "2 ^ 52 \<le> \<bar>x\<bar> * 2 ^ k" and "\<bar>x\<bar> * 2 ^ k < 2 ^ 53"
      and "of_int m - 1 / 2 < x * 2 ^ k" and "x * 2 ^ k < of_int m + 1 / 2"
  shows "fl x = of_int m / 2 ^ k"
  unfolding fl_up[OF assms(1,2)] round_half_even_eval[OF assms(3,4)] ..

lemma fl_eval_down:
  assumes "2 ^ 52 \<le> \<bar>x\<bar> / 2 ^ k" and "\<bar>x\<bar> / 2 ^ k < 2 ^ 53"
      and "of_int m - 1 / 2 < x / 2 ^ k" and "x / 2 ^ k < of_int m + 1 / 2"
  shows "fl x = of_int m * 2 ^ k"
  unfolding fl_down[OF assms(1,2)] round_half_even_eval[OF assms(3,4)] ..

lemma fl_tie_up:
  assumes "2 ^ 52 \<le> \<bar>x\<bar> * 2 ^ k" and "\<bar>x\<bar> * 2 ^ k < 2 ^ 53"
      and "x * 2 ^ k = of_int m + 1 / 2"
  shows "fl x = of_int (if even m then m else m + 1) / 2 ^ k"
  unfolding fl_up[OF assms(1,2)] round_half_even_tie[OF assms(3)] ..

lemma fl_tie_down:
  assumes "2 ^ 52 \<le> \<bar>x\<bar> / 2 ^ k" and "\<bar>x\<bar> / 2 ^ k < 2 ^ 53"
      and "x / 2 ^ k = of_int m + 1 / 2"
  shows "fl x = of_int (if even m then m else m + 1) * 2 ^ k"
  unfolding fl_down[OF assms(1,2)] round_half_even_tie[OF assms(3)] ..


lemma fl_exponent_bounds:
  assumes "x \<noteq> 0"
  shows "2 ^ 52 * 2 powr of_int (\<lfloor>log 2 \<bar>x\<bar>\<rfloor> - 52) \<le> \<bar>x\<bar>"
    and "\<bar>x\<bar> < 2 ^ 53 * 2 powr of_int (\<lfloor>log 2 \<bar>x\<bar>\<rfloor> - 52)"
proof -
  let ?L = "log 2 \<bar>x\<bar>"
  have x0: "0 < \<bar>x\<bar>" using assms by simp
  have "2 powr of_int \<lfloor>?L\<rfloor> \<le> \<bar>x\<bar>"
    using le_log_iff[of 2 "\<bar>x\<bar>" "of_int \<lfloor>?L\<rfloor>"] x0 by simp
  moreover have "(2::real) powr of_int \<lfloor>?L\<rfloor> = 2 ^ 52 * 2 powr of_int (\<lfloor>?L\<rfloor> - 52)"
  proof -
    have "(2::real) powr of_int \<lfloor>?L\<rfloor> = 2 powr (52 + of_int (\<lfloor>?L\<rfloor> - 52))" by simp
    also have "\<dots> = 2 ^ 52 * 2 powr of_int (\<lfloor>?L\<rfloor> - 52)" by (simp only: powr_add) simp
    finally show ?thesis .
  qed
  ultimately show "2 ^ 52 * 2 powr of_int (\<lfloor>?L\<rfloor> - 52) \<le> \<bar>x\<bar>" by simp
  have "?L < of_int \<lfloor>?L\<rfloor> + 1" by linarith
  then have "\<bar>x\<bar> < 2 powr (of_int \<lfloor>?L\<rfloor> + 1)"
    using log_less_iff[of 2 "\<bar>x\<bar>" "of_int \<lfloor>?L\<rfloor> + 1"] x0 by linarith
  moreover have "(2::real) powr (of_int \<lfloor>?L\<rfloor> + 1) = 2 ^ 53 * 2 powr of_int (\<lfloor>?L\<rfloor> - 52)"
  proof -
    have "(2::real) powr (of_int \<lfloor>?L\<rfloor> + 1) = 2 powr (53 + of_int (\<lfloor>?L\<rfloor> - 52))"
      by (simp add: add.commute)
    also have "\<dots> = 2 ^ 53 * 2 powr of_int (\<lfloor>?L\<rfloor> - 52)" by (simp only: powr_add) simp
    finally show ?thesis .
  qed
  ultimately show "\<bar>x\<bar> < 2 ^ 53 * 2 powr of_int (\<lfloor>?L\<rfloor> - 52)" by simp
qed

lemma round_half_even_near: "\<bar>of_int (round_half_even x) - x\<bar> \<le> 1 / 2"
proof -
  have a: "of_int \<lfloor>x\<rfloor> \<le> x" and b: "x < of_int \<lfloor>x\<rfloor> + 1" by linarith+
  show ?thesis
    unfolding round_half_even_def Let_def using a b by (auto simp: abs_if) linarith+
qed

lemma fl_rel_error: "\<bar>fl x - x\<bar> \<le> \<bar>x\<bar> / 2 ^ 53"
proof (cases "x = 0")
  case True
  then show ?thesis by simp
next
  case False
  let ?P = "(2::real) powr of_int (\<lfloor>log 2 \<bar>x\<bar>\<rfloor> - 52)"
  let ?y = "x / ?P"
  have P: "0 < ?P" by simp
  have f: "fl x = of_int (round_half_even ?y) * ?P" using False by (simp add: fl_def Let_def)
  have x: "x = ?y * ?P" by simp
  have "fl x - x = (of_int (round_half_even ?y) - ?y) * ?P"
    unfolding f by (simp add: algebra_simps)
  then have "\<bar>fl x - x\<bar> = \<bar>of_int (round_half_even ?y) - ?y\<bar> * ?P"
    by (simp add: abs_mult)
  also have "\<dots> \<le> 1 / 2 * ?P"
    using round_half_even_near[of ?y] P by (intro mult_right_mono) simp_all
  also have "\<dots> \<le> \<bar>x\<bar> / 2 ^ 53"
    using fl_exponent_bounds(1)[OF False] by simp
  finally show ?thesis .
qed

lemma round_half_even_nonneg: "0 \<le> x \<Longrightarrow> 0 \<le> round_half_even x"
proof -
  assume "0 \<le> x"
  then have "0 \<le> \<lfloor>x\<rfloor>" by simp
  then show ?thesis unfolding round_half_even_def Let_def by simp
qed

lemma fl_nonneg: "0 \<le> x \<Longrightarrow> 0 \<le> fl x"
proof -
  assume x: "0 \<le> x"
  have "0 \<le> round_half_even (x / 2 powr of_int (\<lfloor>log 2 \<bar>x\<bar>\<rfloor> - 52))"
    by (rule round_half_even_nonneg) (use x in simp)
  then show ?thesis by (simp add: fl_def Let_def)
qed

lemma fl_representable:
  assumes "\<bar>m\<bar> < 2 ^ 53"
  shows "fl (of_int m * 2 powr of_int E) = of_int m * 2 powr of_int E"
proof (cases "m = 0")
  case True
  then show ?thesis by simp
next
  case False
  let ?x = "of_int m * 2 powr of_int E :: real"
  let ?e = "\<lfloor>log 2 \<bar>?x\<bar>\<rfloor> - 52"
  have x0: "?x \<noteq> 0" using False by simp
  have ax: "\<bar>?x\<bar> = of_int \<bar>m\<bar> * 2 powr of_int E" by (simp add: abs_mult)
  have "of_int \<bar>m\<bar> < (2 ^ 53 :: real)" using assms by (metis of_int_less_iff of_int_numeral of_int_power)
  then have "\<bar>?x\<bar> < 2 ^ 53 * 2 powr of_int E" unfolding ax by simp
  with fl_exponent_bounds(1)[OF x0]
  have "(2 ^ 52 :: real) * 2 powr of_int ?e < 2 ^ 53 * 2 powr of_int E" by linarith
  then have "2 powr (52 + of_int ?e) < (2::real) powr (53 + of_int E)"
    by (simp only: powr_add) simp
  then have "52 + (of_int ?e :: real) < 53 + of_int E" by simp
  then have le: "?e \<le> E" by linarith
  define j where "j = nat (E - ?e)"
  have E: "E = ?e + int j" using le by (simp add: j_def)
  have "(2::real) powr of_int E = 2 powr (of_int ?e + of_int (int j))"
    by (subst E) simp
  also have "\<dots> = 2 powr of_int ?e * 2 ^ j"
    by (simp only: powr_add) (simp add: powr_realpow)
  finally have pE: "(2::real) powr of_int E = 2 powr of_int ?e * 2 ^ j" .
  have y: "?x / 2 powr of_int ?e = of_int (m * 2 ^ j)"
    by (subst pE) simp
  have "fl ?x = of_int (round_half_even (?x / 2 powr of_int ?e)) * 2 powr of_int ?e"
    using x0 by (simp add: fl_def Let_def)
  also have "\<dots> = of_int (m * 2 ^ j) * 2 powr of_int ?e"
    unfolding y round_half_even_of_int ..
  also have "\<dots> = ?x" by (subst (2) pE) simp
  finally show ?thesis .
qed

lemma fl_exact_up:
  assumes "x * 2 ^ k = of_int m" and "\<bar>m\<bar> < 2 ^ 53"
  shows "fl x = x"
proof -
  have x: "x = of_int m * 2 powr of_int (- int k)"
    using assms(1) by (simp add: powr_minus powr_realpow field_simps)
  show ?thesis by (subst (1 2) x) (rule fl_representable[OF assms(2)])
qed

lemma fl_of_int: "\<bar>m\<bar> < 2 ^ 53 \<Longrightarrow> fl (of_int m) = of_int m"
  using fl_representable[of m 0] by simp

lemma fl_exact_down:
  assumes "x = of_int m * 2 ^ k" and "\<bar>m\<bar> < 2 ^ 53"
  shows "fl x = x"
proof -
  have x: "x = of_int m * 2 powr of_int (int k)"
    using assms(1) by (simp add: powr_realpow)
  show ?thesis by (subst (1 2) x) (rule fl_representable[OF assms(2)])
qed

text \<open>The doubles that the examples below meet, each with the rounding that yields it.\<close>

lemma fl_3_10 [fl_values]: "fl (3 / 10) = 5404319552844595 / 18014398509481984"
  using fl_eval_up[of "3 / 10" 54 5404319552844595] by simp

lemma fl_1_5 [fl_values]: "fl (1 / 5) = 3602879701896397 / 18014398509481984"
  using fl_eval_up[of "1 / 5" 55 7205759403792794] by simp

lemma fl_2_5 [fl_values]: "fl (2 / 5) = 3602879701896397 / 9007199254740992"
  using fl_eval_up[of "2 / 5" 54 7205759403792794] by simp

lemma fl_3_5 [fl_values]: "fl (3 / 5) = 5404319552844595 / 9007199254740992"
  using fl_eval_up[of "3 / 5" 53 5404319552844595] by simp

lemma fl_11_10 [fl_values]: "fl (11 / 10) = 2476979795053773 / 2251799813685248"
  using fl_eval_up[of "11 / 10" 52 4953959590107546] by simp

lemma fl_9_10 [fl_values]: "fl (9 / 10) = 8106479329266893 / 9007199254740992"
  using fl_eval_up[of "9 / 10" 53 8106479329266893] by simp

lemma fl_4_5 [fl_values]: "fl (4 / 5) = 3602879701896397 / 4503599627370496"
  using fl_eval_up[of "4 / 5" 53 7205759403792794] by simp

lemma fl_6_5 [fl_values]: "fl (6 / 5) = 5404319552844595 / 4503599627370496"
  using fl_eval_up[of "6 / 5" 52 5404319552844595] by simp

lemma fl_21_20 [fl_values]: "fl (21 / 20) = 4728779608739021 / 4503599627370496"
  using fl_eval_up[of "21 / 20" 52 4728779608739021] by simp

lemma fl_19_20 [fl_values]: "fl (19 / 20) = 4278419646001971 / 4503599627370496"
  using fl_eval_up[of "19 / 20" 53 8556839292003942] by simp

lemma fl_7_10 [fl_values]: "fl (7 / 10) = 3152519739159347 / 4503599627370496"
  using fl_eval_up[of "7 / 10" 53 6305039478318694] by simp

lemma fl_1_10 [fl_values]: "fl (1 / 10) = 3602879701896397 / 36028797018963968"
  using fl_eval_up[of "1 / 10" 56 7205759403792794] by simp

lemma fl_1_100 [fl_values]: "fl (1 / 100) = 5764607523034235 / 576460752303423488"
  using fl_eval_up[of "1 / 100" 59 5764607523034235] by simp

lemma fl_333_10 [fl_values]: "fl (333 / 10) = 2343279181116211 / 70368744177664"
  using fl_eval_up[of "333 / 10" 47 4686558362232422] by simp

lemma fl_r1 [fl_values]: "fl (3602879701896397 / 18014398509481984) = 3602879701896397 / 18014398509481984"
  using fl_eval_up[of "3602879701896397 / 18014398509481984" 55 7205759403792794] by simp

lemma fl_r2 [fl_values]: "fl (3602879701896397 / 9007199254740992) = 3602879701896397 / 9007199254740992"
  using fl_eval_up[of "3602879701896397 / 9007199254740992" 54 7205759403792794] by simp

lemma fl_r3 [fl_values]: "fl (10808639105689191 / 18014398509481984) = 1351079888211149 / 2251799813685248"
  using fl_tie_up[of "10808639105689191 / 18014398509481984" 53 5404319552844595] by simp

lemma fl_r4 [fl_values]: "fl (14411518807585589 / 18014398509481984) = 3602879701896397 / 4503599627370496"
  using fl_tie_up[of "14411518807585589 / 18014398509481984" 53 7205759403792794] by simp

lemma fl_r5 [fl_values]: "fl (18014398509481985 / 18014398509481984) = 1"
  using fl_eval_up[of "18014398509481985 / 18014398509481984" 52 4503599627370496] by simp

lemma fl_r6 [fl_values]: "fl (21617278211378381 / 18014398509481984) = 5404319552844595 / 4503599627370496"
  using fl_eval_up[of "21617278211378381 / 18014398509481984" 52 5404319552844595] by simp

lemma fl_r7 [fl_values]: "fl (25220157913274777 / 18014398509481984) = 3152519739159347 / 2251799813685248"
  using fl_eval_up[of "25220157913274777 / 18014398509481984" 52 6305039478318694] by simp

lemma fl_r8 [fl_values]: "fl (28823037615171173 / 18014398509481984) = 7205759403792793 / 4503599627370496"
  using fl_eval_up[of "28823037615171173 / 18014398509481984" 52 7205759403792793] by simp

lemma fl_r9 [fl_values]: "fl (7205759403792793 / 36028797018963968) = 7205759403792793 / 36028797018963968"
  using fl_eval_up[of "7205759403792793 / 36028797018963968" 55 7205759403792793] by simp

lemma fl_r10 [fl_values]: "fl (5404319552844595 / 27021597764222976) = 7205759403792793 / 36028797018963968"
  using fl_eval_up[of "5404319552844595 / 27021597764222976" 55 7205759403792793] by simp

lemma fl_r11 [fl_values]: "fl (14411518807585587 / 36028797018963968) = 3602879701896397 / 9007199254740992"
  using fl_tie_up[of "14411518807585587 / 36028797018963968" 54 7205759403792793] by simp

lemma fl_r12 [fl_values]: "fl (- (1 / 36028797018963968)) = - (1 / 36028797018963968)"
  using fl_eval_up[of "- (1 / 36028797018963968)" 107 "- 4503599627370496"] by simp

lemma fl_r13 [fl_values]: "fl (- (3 / 36028797018963968)) = - (3 / 36028797018963968)"
  using fl_eval_up[of "- (3 / 36028797018963968)" 106 "- 6755399441055744"] by simp

lemma fl_n1_2 [fl_values]: "fl (- (1 / 2)) = - (1 / 2)"
  using fl_eval_up[of "- (1 / 2)" 53 "- 4503599627370496"] by simp

lemma fl_n1 [fl_values]: "fl (- 1) = - 1"
  using fl_eval_up[of "- 1" 52 "- 4503599627370496"] by simp

lemma fl_n3_2 [fl_values]: "fl (- (3 / 2)) = - (3 / 2)"
  using fl_eval_up[of "- (3 / 2)" 52 "- 6755399441055744"] by simp

lemma fl_n2 [fl_values]: "fl (- 2) = - 2"
  using fl_eval_up[of "- 2" 51 "- 4503599627370496"] by simp

lemma fl_n5_2 [fl_values]: "fl (- (5 / 2)) = - (5 / 2)"
  using fl_eval_up[of "- (5 / 2)" 51 "- 5629499534213120"] by simp

lemma fl_n3 [fl_values]: "fl (- 3) = - 3"
  using fl_eval_up[of "- 3" 51 "- 6755399441055744"] by simp

lemma fl_n7_2 [fl_values]: "fl (- (7 / 2)) = - (7 / 2)"
  using fl_eval_up[of "- (7 / 2)" 51 "- 7881299347898368"] by simp

lemma fl_n4 [fl_values]: "fl (- 4) = - 4"
  using fl_eval_up[of "- 4" 50 "- 4503599627370496"] by simp

lemma fl_1 [fl_values]: "fl 1 = 1"
  using fl_eval_up[of "1" 52 4503599627370496] by simp

lemma fl_1_2 [fl_values]: "fl (1 / 2) = 1 / 2"
  using fl_eval_up[of "1 / 2" 53 4503599627370496] by simp

lemma fl_r14 [fl_values]: "fl (2476979795053773 / 2251799813685248) = 2476979795053773 / 2251799813685248"
  using fl_eval_up[of "2476979795053773 / 2251799813685248" 52 4953959590107546] by simp

lemma fl_r15 [fl_values]: "fl (18014398509481985 / 4503599627370496) = 4"
  using fl_eval_up[of "18014398509481985 / 4503599627370496" 50 4503599627370496] by simp

lemma fl_r16 [fl_values]: "fl (12384898975268865 / 2251799813685248) = 11 / 2"
  using fl_tie_up[of "12384898975268865 / 2251799813685248" 50 6192449487634432] by simp

lemma fl_r17 [fl_values]: "fl (27021597764222975 / 4503599627370496) = 6"
  using fl_eval_up[of "27021597764222975 / 4503599627370496" 50 6755399441055744] by simp

lemma fl_r18 [fl_values]: "fl (37830236869912165 / 4503599627370496) = 4728779608739021 / 562949953421312"
  using fl_eval_up[of "37830236869912165 / 4503599627370496" 49 4728779608739021] by simp

lemma fl_20 [fl_values]: "fl 20 = 20"
  using fl_eval_up[of "20" 48 5629499534213120] by simp

lemma fl_100 [fl_values]: "fl 100 = 100"
  using fl_eval_up[of "100" 46 7036874417766400] by simp

lemma fl_r19 [fl_values]: "fl (4278419646001971 / 9007199254740992) = 4278419646001971 / 9007199254740992"
  using fl_eval_up[of "4278419646001971 / 9007199254740992" 54 8556839292003942] by simp

lemma fl_r20 [fl_values]: "fl (4728779608739021 / 9007199254740992) = 4728779608739021 / 9007199254740992"
  using fl_eval_up[of "4728779608739021 / 9007199254740992" 53 4728779608739021] by simp

lemma fl_r21 [fl_values]: "fl (90071992547409925 / 4503599627370496) = 20"
  using fl_eval_up[of "90071992547409925 / 4503599627370496" 48 5629499534213120] by simp

section \<open>The trend store\<close>

lemma fold_latest_in:
  "fold (\<lambda>b best. if tp_date b > tp_date best then b else best) rs r \<in> set (r # rs)"
  by (induction rs arbitrary: r) (auto split: if_splits)

lemma fold_latest_ge:
  "tp_date r \<le> tp_date (fold (\<lambda>b best. if tp_date b > tp_date best then b else best) rs r)"
proof (induction rs arbitrary: r)
  case Nil show ?case by simp
next
  case (Cons a rs)
  show ?case using Cons[of a] Cons[of r] by (auto split: if_splits)
qed

lemma fold_latest_max:
  "x \<in> set rs \<Longrightarrow>
     tp_date x \<le> tp_date (fold (\<lambda>b best. if tp_date b > tp_date best then b else best) rs r)"
proof (induction rs arbitrary: r)
  case Nil then show ?case by simp
next
  case (Cons a rs)
  show ?case
  proof (cases "x = a")
    case True
    then show ?thesis
      using fold_latest_ge[of a rs] fold_latest_ge[of r rs] by (auto split: if_splits)
  next
    case False
    then show ?thesis using Cons by (auto split: if_splits)
  qed
qed

lemma latest_point_None: "latest_point xs = None \<longleftrightarrow> xs = []"
  by (cases xs) auto

lemma latest_point_Some:
  assumes "latest_point xs = Some r"
  shows "r \<in> set xs \<and> (\<forall>x\<in>set xs. tp_date x \<le> tp_date r)"
proof (cases xs)
  case Nil with assms show ?thesis by simp
next
  case (Cons a as)
  then have r: "r = fold (\<lambda>b best. if tp_date b > tp_date best then b else best) as a"
    using assms by simp
  show ?thesis
    unfolding Cons r using fold_latest_in[of as a] fold_latest_ge[of a as] fold_latest_max[of _ as a]
    by auto
qed

lemma filter_map_fixed:
  assumes "\<And>x. P (f x) = P x" and "\<And>x. P x \<Longrightarrow> f x = x"
  shows "filter P (map f xs) = filter P xs"
  using assms by (induction xs) auto

lemma calculate_trend_eq:
  "calculate_trend today p m v dt T =
     update_or_create (trend_record p m v (case dt of None \<Rightarrow> today | Some d' \<Rightarrow> d') T) T"
  unfolding calculate_trend_def trend_record_def Let_def
  by (simp split: prod.splits)

lemma trend_record_key [simp]:
  "tp_project (trend_record p m v d T) = p"
  "tp_metric_type (trend_record p m v d T) = m"
  "tp_date (trend_record p m v d T) = d"
  "tp_current_value (trend_record p m v d T) = v"
  unfolding trend_record_def Let_def by (simp_all split: prod.splits)

lemma trend_record_cong:
  assumes "\<And>P :: TeamHealthTrend \<Rightarrow> bool. (\<And>r. P r \<Longrightarrow> tp_date r < d) \<Longrightarrow> filter P T' = filter P T"
  shows "trend_record p m v d T' = trend_record p m v d T"
proof -
  have 1: "filter (\<lambda>r. tp_project r = p \<and> tp_metric_type r = m \<and> tp_date r < d) T'
         = filter (\<lambda>r. tp_project r = p \<and> tp_metric_type r = m \<and> tp_date r < d) T"
    by (rule assms) simp
  have 2: "filter (\<lambda>r. tp_project r = p \<and> tp_metric_type r = m \<and> tp_date r \<ge> d - 7 \<and> tp_date r < d) T'
         = filter (\<lambda>r. tp_project r = p \<and> tp_metric_type r = m \<and> tp_date r \<ge> d - 7 \<and> tp_date r < d) T"
    by (rule assms) simp
  have 3: "filter (\<lambda>r. tp_project r = p \<and> tp_metric_type r = m \<and> tp_date r \<ge> d - 30 \<and> tp_date r < d) T'
         = filter (\<lambda>r. tp_project r = p \<and> tp_metric_type r = m \<and> tp_date r \<ge> d - 30 \<and> tp_date r < d) T"
    by (rule assms) simp
  show ?thesis unfolding trend_record_def 1 2 3 ..
qed

lemma update_or_create_cases:
  assumes "length (filter (same_key (tp_project new) (tp_metric_type new) (tp_date new)) T) \<le> 1"
  shows "\<exists>T1. update_or_create new T = Inr (new, T1) \<and>
           filter (same_key (tp_project new) (tp_metric_type new) (tp_date new)) T1 = [new] \<and>
           (\<forall>P :: TeamHealthTrend \<Rightarrow> bool. (\<forall>r. P r \<longrightarrow> tp_date r \<noteq> tp_date new) \<longrightarrow> filter P T1 = filter P T) \<and>
           (filter (same_key (tp_project new) (tp_metric_type new) (tp_date new)) T = [new] \<longrightarrow> T1 = T)"
proof -
  let ?key = "same_key (tp_project new) (tp_metric_type new) (tp_date new)"
  have knew: "?key new" by (simp add: same_key_def)
  consider "filter ?key T = []" | old where "filter ?key T = [old]"
    using assms by (cases "filter ?key T") (auto simp: Suc_le_eq)
  then show ?thesis
  proof cases
    case 1
    have "update_or_create new T = Inr (new, T @ [new])"
      unfolding update_or_create_def Let_def using 1 by simp
    moreover have "filter ?key (T @ [new]) = [new]" using 1 knew by simp
    moreover have "\<forall>P :: TeamHealthTrend \<Rightarrow> bool. (\<forall>r. P r \<longrightarrow> tp_date r \<noteq> tp_date new) \<longrightarrow> filter P (T @ [new]) = filter P T"
      by auto
    ultimately show ?thesis using 1 by auto
  next
    case 2
    let ?f = "\<lambda>r. if ?key r then new else r"
    have u: "update_or_create new T = Inr (new, map ?f T)"
      unfolding update_or_create_def Let_def using 2 by simp
    have "filter ?key (map ?f T) = map ?f (filter ?key T)"
      using knew by (induction T) auto
    moreover have ko: "?key old"
    proof -
      have "old \<in> set (filter ?key T)" using 2 by simp
      then show ?thesis by simp
    qed
    ultimately have k: "filter ?key (map ?f T) = [new]" using 2 by simp
    have fr: "\<forall>P :: TeamHealthTrend \<Rightarrow> bool. (\<forall>r. P r \<longrightarrow> tp_date r \<noteq> tp_date new) \<longrightarrow> filter P (map ?f T) = filter P T"
    proof (intro allI impI)
      fix P :: "TeamHealthTrend \<Rightarrow> bool" assume P: "\<forall>r. P r \<longrightarrow> tp_date r \<noteq> tp_date new"
      show "filter P (map ?f T) = filter P T"
      proof (rule filter_map_fixed)
        fix x show "P (?f x) = P x" using P by (auto simp: same_key_def)
      next
        fix x assume "P x" then show "?f x = x" using P by (auto simp: same_key_def)
      qed
    qed
    have same: "filter ?key T = [new] \<longrightarrow> map ?f T = T"
    proof
      assume a: "filter ?key T = [new]"
      have "\<And>x. x \<in> set T \<Longrightarrow> ?key x \<Longrightarrow> x = new"
      proof -
        fix x assume "x \<in> set T" "?key x"
        then have "x \<in> set (filter ?key T)" by simp
        then show "x = new" using a by simp
      qed
      then show "map ?f T = T" by (intro map_idI) auto
    qed
    show ?thesis using u k fr same by blast
  qed
qed

text \<open>
  Claim C7. Under the table's uniqueness constraint on (project, metric_type, date),
  calling \<open>calculate_trend\<close> twice with the same project, metric type, value and date
  succeeds both times, returns the same point and leaves the same table; the table then
  holds exactly one point of that key, its \<open>current_value\<close> is the value given, and its
  \<open>previous_value\<close> is the \<open>current_value\<close> of a latest point of the original table
  dated strictly before the date (none when there is no such point), never the value
  written by the first call.
\<close>

theorem C7_calculate_trend_idempotent:
  assumes uniq: "length (filter (same_key p m d) T) \<le> 1"
  shows "\<exists>t T1. calculate_trend today p m v (Some d) T = Inr (t, T1) \<and>
           calculate_trend today' p m v (Some d) T1 = Inr (t, T1) \<and>
           filter (same_key p m d) T1 = [t] \<and>
           tp_current_value t = v \<and>
           (let prior = filter (\<lambda>r. tp_project r = p \<and> tp_metric_type r = m \<and> tp_date r < d) T
            in if prior = [] then tp_previous_value t = None
               else \<exists>r\<in>set prior. (\<forall>r'\<in>set prior. tp_date r' \<le> tp_date r) \<and>
                      tp_previous_value t = Some (tp_current_value r))"
proof -
  let ?new = "trend_record p m v d T"
  have u: "length (filter (same_key (tp_project ?new) (tp_metric_type ?new) (tp_date ?new)) T) \<le> 1"
    using uniq by simp
  from update_or_create_cases[OF u] obtain T1 where
    c1: "update_or_create ?new T = Inr (?new, T1)" and
    k1: "filter (same_key p m d) T1 = [?new]" and
    fr: "\<And>P :: TeamHealthTrend \<Rightarrow> bool. (\<forall>r. P r \<longrightarrow> tp_date r \<noteq> d) \<Longrightarrow> filter P T1 = filter P T"
    by auto
  have same: "trend_record p m v d T1 = ?new"
    by (rule trend_record_cong) (rule fr, auto)
  have u2: "length (filter (same_key (tp_project ?new) (tp_metric_type ?new) (tp_date ?new)) T1) \<le> 1"
    using k1 by simp
  from update_or_create_cases[OF u2] k1 have c2: "update_or_create ?new T1 = Inr (?new, T1)"
    by auto
  let ?prior = "filter (\<lambda>r. tp_project r = p \<and> tp_metric_type r = m \<and> tp_date r < d) T"
  have pv: "tp_previous_value ?new = (case latest_point ?prior of None \<Rightarrow> None
                                      | Some q \<Rightarrow> Some (tp_current_value q))"
    unfolding trend_record_def Let_def by (simp split: prod.splits)
  have prev: "if ?prior = [] then tp_previous_value ?new = None
               else \<exists>r\<in>set ?prior. (\<forall>r'\<in>set ?prior. tp_date r' \<le> tp_date r) \<and>
                      tp_previous_value ?new = Some (tp_current_value r)"
  proof (cases "latest_point ?prior")
    case None
    then show ?thesis using pv latest_point_None[of ?prior] by simp
  next
    case (Some q)
    then have "?prior \<noteq> []" using latest_point_None[of ?prior] by auto
    moreover have "q \<in> set ?prior \<and> (\<forall>x\<in>set ?prior. tp_date x \<le> tp_date q)"
      using latest_point_Some[OF Some] .
    ultimately show ?thesis using pv Some by auto
  qed
  show ?thesis
    apply (rule exI[of _ ?new], rule exI[of _ T1])
    unfolding calculate_trend_eq option.case same Let_def
    using c1 c2 k1 prev by simp
qed


theorem C7_calculate_trend_idempotent_witness:
  "length (filter (same_key 1 ''sentiment'' 1) [point0]) \<le> 1 \<and>
   (\<exists>t T1. calculate_trend 0 1 ''sentiment'' 120 (Some 1) [point0] = Inr (t, T1) \<and>
       calculate_trend 5 1 ''sentiment'' 120 (Some 1) T1 = Inr (t, T1) \<and>
       filter (same_key 1 ''sentiment'' 1) T1 = [t] \<and>
       tp_current_value t = 120 \<and> tp_previous_value t = Some 100)"
  using C7_calculate_trend_idempotent[of 1 "''sentiment''" 1 "[point0]" 0 120 5]
  by (auto simp: same_key_def point0_def)

lemma update_or_create_fst:
  "update_or_create new T = Inr (t, T1) \<Longrightarrow> t = new"
  unfolding update_or_create_def Let_def
  by (auto split: list.splits)

lemma trend_record_direction:
  assumes "tp_change_percentage (trend_record p m v d T) = Some c"
  shows "tp_trend_direction (trend_record p m v d T) =
           (if c > 5 then ''improving'' else if c < - 5 then ''declining'' else ''stable'')"
  using assms unfolding trend_record_def Let_def
  by (auto split: prod.splits if_splits)

text \<open>
  Claim C6 (the code departs from it). Whenever \<open>calculate_trend\<close> stores a change
  percentage of absolute value above 15, the stored direction is \<open>improving\<close> or
  \<open>declining\<close> and never \<open>volatile\<close>: the branch that would store \<open>volatile\<close> comes after
  the tests \<open>> 5\<close> and \<open>< -5\<close> and cannot be reached.
\<close>

theorem C6_volatile_never_stored:
  assumes "calculate_trend today p m v dt T = Inr (t, T1)"
      and "tp_change_percentage t = Some c" and "\<bar>c\<bar> > 15"
  shows "tp_trend_direction t = (if c > 0 then ''improving'' else ''declining'') \<and>
         tp_trend_direction t \<noteq> ''volatile''"
proof -
  let ?d = "case dt of None \<Rightarrow> today | Some d' \<Rightarrow> d'"
  have t: "t = trend_record p m v ?d T"
    using assms(1) unfolding calculate_trend_eq by (rule update_or_create_fst)
  show ?thesis
    using trend_record_direction[of p m v ?d T c] assms(2,3) unfolding t by auto
qed

lemma calculate_trend_example:
  "calculate_trend 0 1 ''sentiment'' 120 (Some 1) [point0]
     = Inr (\<lparr>tp_project = 1, tp_metric_type = ''sentiment'', tp_date = 1,
              tp_current_value = 120, tp_previous_value = Some 100,
              tp_change_percentage = Some 20, tp_trend_direction = ''improving'',
              tp_rolling_average_7d = Some 100, tp_rolling_average_30d = Some 100\<rparr>,
            [point0, \<lparr>tp_project = 1, tp_metric_type = ''sentiment'', tp_date = 1,
              tp_current_value = 120, tp_previous_value = Some 100,
              tp_change_percentage = Some 20, tp_trend_direction = ''improving'',
              tp_rolling_average_7d = Some 100, tp_rolling_average_30d = Some 100\<rparr>])"
  by (simp add: calculate_trend_def update_or_create_def same_key_def Avg_def Let_def point0_def
        fsum_def fl_values)

theorem C6_volatile_never_stored_witness:
  "calculate_trend 0 1 ''sentiment'' 120 (Some 1) [point0]
     = Inr (\<lparr>tp_project = 1, tp_metric_type = ''sentiment'', tp_date = 1,
              tp_current_value = 120, tp_previous_value = Some 100,
              tp_change_percentage = Some 20, tp_trend_direction = ''improving'',
              tp_rolling_average_7d = Some 100, tp_rolling_average_30d = Some 100\<rparr>,
            [point0, \<lparr>tp_project = 1, tp_metric_type = ''sentiment'', tp_date = 1,
              tp_current_value = 120, tp_previous_value = Some 100,
              tp_change_percentage = Some 20, tp_trend_direction = ''improving'',
              tp_rolling_average_7d = Some 100, tp_rolling_average_30d = Some 100\<rparr>]) \<and>
   \<bar>20 :: real\<bar> > 15 \<and>
   tp_trend_direction \<lparr>tp_project = 1, tp_metric_type = ''sentiment'', tp_date = 1,
              tp_current_value = 120, tp_previous_value = Some 100,
              tp_change_percentage = Some 20, tp_trend_direction = ''improving'',
              tp_rolling_average_7d = Some 100, tp_rolling_average_30d = Some 100\<rparr> \<noteq> ''volatile''"
  using calculate_trend_example C6_volatile_never_stored[OF calculate_trend_example, of 20] by simp

section \<open>The burnout score\<close>

text \<open>
  Claim C2, as amended. For every member and every session table,
  \<open>_calculate_burnout_score\<close> returns a natural number of at most 5: the four indicators
  add 2, 1, 1 and 1. (The bound 4 of the claim fails, see the counterexample.)
\<close>

theorem C2_burnout_score_range: "calculate_burnout_score c member sessions \<le> 5"
  by (simp add: calculate_burnout_score_def Let_def)

lemma worn_quality: "assess_content_quality worn_session = 0"
  by (simp add: assess_content_quality_def worn_session_def Let_def py_strip_def is_space_def
       py_lower_def lower_char_def)

text \<open>
  A member whose only session in the window has sentiment -0.5, a blocker and low-quality
  content scores 5, above the bound 4 of claim C2.
\<close>

theorem C2_burnout_score_counterexample:
  "calculate_burnout_score clock0 member1 [worn_session] = 5"
  unfolding calculate_burnout_score_def Let_def
  by (simp add: worn_quality)
     (simp add: worn_session_def clock0_def member1_def Avg_def truthy_def fsum_def fl_values)

section \<open>The metric calculators\<close>

lemma in_range_eta:
  "(\<lambda>s. ss_project s = project \<and> start_date \<le> ss_date s \<and> ss_date s \<le> end_date)
     = in_range project start_date end_date"
  by (simp add: in_range_def fun_eq_iff)

lemma participation_empty:
  assumes "filter (in_range project start_date end_date) table = []"
  shows "get_participation_metrics project table start_date end_date =
           [(''rate'', PInt 0), (''trend'', PStr ''no_data''), (''status'', PStr ''concerning'')]"
  unfolding get_participation_metrics_def in_range_eta Let_def using assms by simp

lemma sentiment_empty:
  assumes "filter (in_range project start_date end_date) table = []"
  shows "get_sentiment_metrics project table start_date end_date =
           [(''score'', PInt 0), (''trend'', PStr ''no_data''), (''status'', PStr ''neutral'')]"
  unfolding get_sentiment_metrics_def in_range_eta Let_def assms by simp

lemma blocker_empty:
  assumes "filter (in_range project start_date end_date) table = []"
  shows "get_blocker_metrics project table start_date end_date =
           [(''resolution_rate'', PInt 0), (''trend'', PStr ''no_data''),
            (''status'', PStr ''concerning'')]"
  unfolding get_blocker_metrics_def in_range_eta Let_def using assms by simp

lemma work_item_empty:
  assumes "filter (in_range project start_date end_date) table = []"
  shows "get_work_item_metrics project table items start_date end_date =
           [(''completion_rate'', PInt 0), (''trend'', PStr ''no_data''),
            (''status'', PStr ''no_data'')]"
proof -
  have none: "\<And>s. s \<in> set table \<Longrightarrow> \<not> in_range project start_date end_date s"
    using assms by (simp add: filter_empty_conv)
  have "\<And>w. \<not> wi_session_sat table (in_range project start_date end_date) w"
    unfolding wi_session_sat_def list_ex_iff using none by blast
  then have "filter (wi_session_sat table (in_range project start_date end_date)) items = []"
    by (simp add: filter_empty_conv)
  then show ?thesis
    unfolding get_work_item_metrics_def in_range_eta Let_def by simp
qed

text \<open>
  Claim C3, as amended. When the table holds no session of the project dated within the
  range, each of the four calculators returns, without raising, its three-key sentinel:
  the value 0, the trend \<open>no_data\<close> and the status \<open>concerning\<close> (participation,
  blockers), \<open>neutral\<close> (sentiment) or \<open>no_data\<close> (work items). The sentinel has no
  \<open>data_points\<close> key.
\<close>

theorem C3_empty_range:
  assumes "filter (in_range project start_date end_date) table = []"
  shows "get_participation_metrics project table start_date end_date =
           [(''rate'', PInt 0), (''trend'', PStr ''no_data''), (''status'', PStr ''concerning'')] \<and>
         get_sentiment_metrics project table start_date end_date =
           [(''score'', PInt 0), (''trend'', PStr ''no_data''), (''status'', PStr ''neutral'')] \<and>
         get_blocker_metrics project table start_date end_date =
           [(''resolution_rate'', PInt 0), (''trend'', PStr ''no_data''),
            (''status'', PStr ''concerning'')] \<and>
         get_work_item_metrics project table items start_date end_date =
           [(''completion_rate'', PInt 0), (''trend'', PStr ''no_data''),
            (''status'', PStr ''no_data'')]"
  using participation_empty[OF assms] sentiment_empty[OF assms] blocker_empty[OF assms]
        work_item_empty[OF assms] by simp

theorem C3_empty_range_witness:
  "filter (in_range 2 0 7) level_sessions = [] \<and>
   get_participation_metrics 2 level_sessions 0 7 =
     [(''rate'', PInt 0), (''trend'', PStr ''no_data''), (''status'', PStr ''concerning'')] \<and>
   get_sentiment_metrics 2 level_sessions 0 7 =
     [(''score'', PInt 0), (''trend'', PStr ''no_data''), (''status'', PStr ''neutral'')] \<and>
   get_blocker_metrics 2 level_sessions 0 7 =
     [(''resolution_rate'', PInt 0), (''trend'', PStr ''no_data''),
      (''status'', PStr ''concerning'')] \<and>
   get_work_item_metrics 2 level_sessions [] 0 7 =
     [(''completion_rate'', PInt 0), (''trend'', PStr ''no_data''),
      (''status'', PStr ''no_data'')]"
proof -
  have e: "filter (in_range 2 0 7) level_sessions = []"
    by (simp add: in_range_def level_sessions_def)
  show ?thesis using e C3_empty_range[OF e, of "[]"] by simp
qed

text \<open>
  On the empty table the sentiment calculator's status is \<open>neutral\<close>, and no calculator's
  result has a \<open>data_points\<close> key.
\<close>

theorem C3_empty_range_counterexample:
  "map_of (get_sentiment_metrics 1 [] 0 7) ''status'' = Some (PStr ''neutral'') \<and>
   map_of (get_sentiment_metrics 1 [] 0 7) ''data_points'' = None \<and>
   map_of (get_participation_metrics 1 [] 0 7) ''data_points'' = None \<and>
   map_of (get_blocker_metrics 1 [] 0 7) ''data_points'' = None \<and>
   map_of (get_work_item_metrics 1 [] [] 0 7) ''data_points'' = None"
  by (simp add: get_sentiment_metrics_def get_participation_metrics_def get_blocker_metrics_def
        get_work_item_metrics_def)

lemma participation_trend:
  "map_of (get_participation_metrics project table start_date end_date) ''trend'' =
     Some (PStr
       (let sessions = filter (in_range project start_date end_date) table;
            mid_date = start_date + (end_date - start_date) div 2
        in if sessions = [] then ''no_data''
           else spec_trend (length (filter (\<lambda>s. ss_date s < mid_date) sessions))
                           (length (filter (\<lambda>s. ss_date s \<ge> mid_date) sessions))))"
  unfolding get_participation_metrics_def in_range_eta Let_def spec_trend_def by simp

lemma work_item_trend:
  "map_of (get_work_item_metrics project table items start_date end_date) ''trend'' =
     Some (PStr
       (let work_items = filter (wi_session_sat table (in_range project start_date end_date)) items;
            mid_date = start_date + (end_date - start_date) div 2
        in if work_items = [] then ''no_data''
           else spec_trend
                  (length (filter (wi_session_sat table (\<lambda>s. ss_date s < mid_date)) work_items))
                  (length (filter (wi_session_sat table (\<lambda>s. ss_date s \<ge> mid_date)) work_items))))"
  unfolding get_work_item_metrics_def in_range_eta Let_def spec_trend_def by simp

lemma blocker_trend_label:
  "map_of (get_blocker_metrics project table start_date end_date) ''trend'' =
     Some (PStr
       (let sessions = filter (in_range project start_date end_date) table;
            mid_date = start_date + (end_date - start_date) div 2
        in if sessions = [] then ''no_data''
           else blocker_trend
                  (length (filter (\<lambda>s. ss_blockers s \<noteq> [])
                             (filter (\<lambda>s. ss_date s < mid_date) sessions)))
                  (length (filter (\<lambda>s. ss_blockers s \<noteq> [])
                             (filter (\<lambda>s. ss_date s \<ge> mid_date) sessions)))))"
  unfolding get_blocker_metrics_def in_range_eta Let_def blocker_trend_def by simp

lemma sentiment_trend:
  "map_of (get_sentiment_metrics project table start_date end_date) ''trend'' =
     Some (PStr
       (let sessions = filter (\<lambda>s. ss_sentiment_score s \<noteq> None)
                          (filter (in_range project start_date end_date) table);
            mid_date = start_date + (end_date - start_date) div 2
        in if sessions = [] then ''no_data''
           else mean_trend (scores_of (filter (\<lambda>s. ss_date s < mid_date) sessions))
                           (scores_of (filter (\<lambda>s. ss_date s \<ge> mid_date) sessions))))"
  unfolding get_sentiment_metrics_def in_range_eta Let_def mean_trend_def scores_of_def by simp

text \<open>
  Claim C5, as amended. The trend label of each calculator, for every table and range
  (\<open>no_data\<close> when the calculator finds no row in the range): participation and work
  items follow the rule of the specification on the counts of the two halves of the range
  (bounds 1.1 and 0.9); the blocker calculator compares the counts of sessions with a
  blocker with the bounds 0.8 and 1.2, a lower count improving; the sentiment calculator
  compares the mean scores of the two halves with the bounds 1.05 and 0.95.
\<close>

theorem C5_trend_labels:
  "map_of (get_participation_metrics project table start_date end_date) ''trend'' =
     Some (PStr
       (let sessions = filter (in_range project start_date end_date) table;
            mid_date = start_date + (end_date - start_date) div 2
        in if sessions = [] then ''no_data''
           else spec_trend (length (filter (\<lambda>s. ss_date s < mid_date) sessions))
                           (length (filter (\<lambda>s. ss_date s \<ge> mid_date) sessions)))) \<and>
   map_of (get_work_item_metrics project table items start_date end_date) ''trend'' =
     Some (PStr
       (let work_items = filter (wi_session_sat table (in_range project start_date end_date)) items;
            mid_date = start_date + (end_date - start_date) div 2
        in if work_items = [] then ''no_data''
           else spec_trend
                  (length (filter (wi_session_sat table (\<lambda>s. ss_date s < mid_date)) work_items))
                  (length (filter (wi_session_sat table (\<lambda>s. ss_date s \<ge> mid_date)) work_items)))) \<and>
   map_of (get_blocker_metrics project table start_date end_date) ''trend'' =
     Some (PStr
       (let sessions = filter (in_range project start_date end_date) table;
            mid_date = start_date + (end_date - start_date) div 2
        in if sessions = [] then ''no_data''
           else blocker_trend
                  (length (filter (\<lambda>s. ss_blockers s \<noteq> [])
                             (filter (\<lambda>s. ss_date s < mid_date) sessions)))
                  (length (filter (\<lambda>s. ss_blockers s \<noteq> [])
                             (filter (\<lambda>s. ss_date s \<ge> mid_date) sessions))))) \<and>
   map_of (get_sentiment_metrics project table start_date end_date) ''trend'' =
     Some (PStr
       (let sessions = filter (\<lambda>s. ss_sentiment_score s \<noteq> None)
                          (filter (in_range project start_date end_date) table);
            mid_date = start_date + (end_date - start_date) div 2
        in if sessions = [] then ''no_data''
           else mean_trend (scores_of (filter (\<lambda>s. ss_date s < mid_date) sessions))
                           (scores_of (filter (\<lambda>s. ss_date s \<ge> mid_date) sessions))))"
  using participation_trend work_item_trend blocker_trend_label sentiment_trend by blast

lemma blocked_sessions_trend:
  "map_of (get_blocker_metrics 1 blocked_sessions 0 7) ''trend'' = Some (PStr ''stable'')"
  unfolding blocker_trend_label
  by (simp add: blocked_sessions_def blocked_session_def in_range_def blocker_trend_def Let_def
        fl_values)

lemma blocked_sessions_counts:
  "length (filter (\<lambda>s. ss_blockers s \<noteq> [])
             (filter (\<lambda>s. ss_date s < 0 + (7 - 0) div 2) blocked_sessions)) = 5 \<and>
   length (filter (\<lambda>s. ss_blockers s \<noteq> [])
             (filter (\<lambda>s. ss_date s \<ge> 0 + (7 - 0) div 2) blocked_sessions)) = 6 \<and>
   spec_trend_inverted 5 6 = ''declining''"
  by (simp add: blocked_sessions_def blocked_session_def spec_trend_inverted_def fl_values)

lemma level_sessions_trend:
  "map_of (get_sentiment_metrics 1 level_sessions 0 7) ''trend'' = Some (PStr ''stable'') \<and>
   length (filter (\<lambda>s. ss_date s < 0 + (7 - 0) div 2) level_sessions) = 1 \<and>
   length (filter (\<lambda>s. ss_date s \<ge> 0 + (7 - 0) div 2) level_sessions) = 2 \<and>
   spec_trend 1 2 = ''improving''"
  by (simp add: get_sentiment_metrics_def level_sessions_def spec_trend_def Let_def fsum_def
        fl_values) (rule exI[of _ "1 / 2 :: real"], simp)

text \<open>
  The range is the days 0 to 7, split at day 3. One scored session in the first half and
  two in the second, all of score 0.5: by the counts the rule of the specification says
  \<open>improving\<close>, the sentiment calculator says \<open>stable\<close>. Five sessions with a blocker in
  the first half and six in the second: the inverted rule of the specification says
  \<open>declining\<close>, the blocker calculator says \<open>stable\<close>.
\<close>

theorem C5_trend_labels_counterexample:
  "(map_of (get_sentiment_metrics 1 level_sessions 0 7) ''trend'' = Some (PStr ''stable'') \<and>
    length (filter (\<lambda>s. ss_date s < 0 + (7 - 0) div 2) level_sessions) = 1 \<and>
    length (filter (\<lambda>s. ss_date s \<ge> 0 + (7 - 0) div 2) level_sessions) = 2 \<and>
    spec_trend 1 2 = ''improving'') \<and>
   map_of (get_blocker_metrics 1 blocked_sessions 0 7) ''trend'' = Some (PStr ''stable'') \<and>
   (length (filter (\<lambda>s. ss_blockers s \<noteq> [])
              (filter (\<lambda>s. ss_date s < 0 + (7 - 0) div 2) blocked_sessions)) = 5 \<and>
    length (filter (\<lambda>s. ss_blockers s \<noteq> [])
              (filter (\<lambda>s. ss_date s \<ge> 0 + (7 - 0) div 2) blocked_sessions)) = 6 \<and>
    spec_trend_inverted 5 6 = ''declining'')"
  by (rule conjI[OF level_sessions_trend conjI[OF blocked_sessions_trend blocked_sessions_counts]])

section \<open>Creating alerts and reporting duplicates\<close>

lemma dedup_window_eta:
  "(\<lambda>a. ha_project a = project \<and> ha_alert_type a = alert_type \<and> ha_status a = ''active'' \<and>
        ha_created_at a \<ge> demo_now c - hours24) = dedup_window c project alert_type"
  by (simp add: dedup_window_def fun_eq_iff)

lemma fold_first_in:
  "fold (\<lambda>b best. if alert_before b best then b else best) as a \<in> set (a # as)"
  by (induction as arbitrary: a) (auto split: if_splits)

lemma first_alert_None: "first_alert xs = None \<longleftrightarrow> xs = []"
  by (cases xs) auto

lemma first_alert_in: "first_alert xs = Some e \<Longrightarrow> e \<in> set xs"
  using fold_first_in by (cases xs) auto

lemma create_alert_fresh:
  assumes "filter (dedup_window c project alert_type) alerts = []"
  shows "create_alert c project alert_type severity conf tm alerts =
           ([(''alert'', PStr ''created''), (''id'', PInt (int (fresh_id alerts))),
             (''severity'', PStr severity), (''confidence'', PFloat conf)],
            alerts @ [new_alert c project alert_type severity conf tm alerts])"
  unfolding create_alert_def dedup_window_eta assms Let_def new_alert_def by simp

lemma create_alert_duplicate:
  assumes "first_alert (filter (dedup_window c project alert_type) alerts) = Some e"
  shows "create_alert c project alert_type severity conf tm alerts =
           ([(''alert'', PStr ''duplicate''), (''existing_id'', PInt (int (ha_id e)))], alerts)"
  unfolding create_alert_def dedup_window_eta assms Let_def by simp

lemma new_alert_in_window:
  assumes "demo_now c' - hours24 \<le> wall_now c"
  shows "dedup_window c' project alert_type (new_alert c project alert_type severity conf tm alerts)"
  using assms by (simp add: dedup_window_def new_alert_def)

lemma window_after_create:
  assumes "filter (dedup_window c project alert_type) alerts = []"
      and "demo_now c \<le> demo_now c'" and "demo_now c' - hours24 \<le> wall_now c"
  shows "filter (dedup_window c' project alert_type)
           (alerts @ [new_alert c project alert_type severity conf tm alerts])
         = [new_alert c project alert_type severity conf tm alerts]"
proof -
  have "\<And>a. dedup_window c' project alert_type a \<Longrightarrow> dedup_window c project alert_type a"
    using assms(2) by (auto simp: dedup_window_def)
  then have "filter (dedup_window c' project alert_type) alerts = []"
    using assms(1) by (auto simp: filter_empty_conv)
  then show ?thesis using new_alert_in_window[OF assms(3)] by simp
qed

lemma create_alert_again:
  assumes "filter (dedup_window c project alert_type) alerts = []"
      and "demo_now c \<le> demo_now c'" and "demo_now c' - hours24 \<le> wall_now c"
  shows "create_alert c' project alert_type severity' conf' tm'
           (alerts @ [new_alert c project alert_type severity conf tm alerts])
         = ([(''alert'', PStr ''duplicate''), (''existing_id'', PInt (int (fresh_id alerts)))],
            alerts @ [new_alert c project alert_type severity conf tm alerts])"
proof -
  have "first_alert (filter (dedup_window c' project alert_type)
           (alerts @ [new_alert c project alert_type severity conf tm alerts]))
        = Some (new_alert c project alert_type severity conf tm alerts)"
    unfolding window_after_create[OF assms] by simp
  from create_alert_duplicate[OF this] show ?thesis by (simp add: new_alert_def)
qed

section \<open>The sentiment-decline check\<close>

lemma threshold_not_positive: "SENTIMENT_DECLINE_THRESHOLD \<le> 0"
  using fl_nonneg[of "3 / 10"] by (simp add: SENTIMENT_DECLINE_THRESHOLD_def)

lemma check_sentiment_low:
  assumes "5 \<le> length (sentiment_recent_sessions c project sessions)"
      and "Avg (map ss_sentiment_score (sentiment_recent_sessions c project sessions)) = Some a"
      and "a < SENTIMENT_DECLINE_THRESHOLD"
  shows "check_sentiment_decline c project sessions alerts =
           (let (alert, alerts') =
                  create_alert c project ''sentiment_decline''
                    (if a < - 0.5 then ''critical'' else ''high'') (min 1 (fl (\<bar>a\<bar> * 2))) None
                    alerts
            in ([alert], alerts'))"
proof -
  have "a \<noteq> 0" using assms(3) threshold_not_positive by linarith
  then show ?thesis
    using assms unfolding check_sentiment_decline_def Let_def by (simp add: truthy_def)
qed

lemma create_alert_medium_or_duplicate:
  "map_of (fst (create_alert c project ty ''medium'' conf tm alerts)) ''severity''
     \<in> {None, Some (PStr ''medium'')}"
  unfolding create_alert_def Let_def by (simp split: option.splits)

lemma check_sentiment_not_low_cases:
  assumes "Avg (map ss_sentiment_score (sentiment_recent_sessions c project sessions)) = Some a"
      and "\<not> a < SENTIMENT_DECLINE_THRESHOLD"
  shows "check_sentiment_decline c project sessions alerts = ([], alerts) \<or>
         (\<exists>conf. check_sentiment_decline c project sessions alerts =
            ([fst (create_alert c project ''sentiment_decline'' ''medium'' conf None alerts)],
             snd (create_alert c project ''sentiment_decline'' ''medium'' conf None alerts)))"
  using assms unfolding check_sentiment_decline_def Let_def case_prod_beta
  by (auto simp: truthy_def)

lemma check_sentiment_not_low:
  assumes "Avg (map ss_sentiment_score (sentiment_recent_sessions c project sessions)) = Some a"
      and "\<not> a < SENTIMENT_DECLINE_THRESHOLD"
  shows "\<forall>r\<in>set (fst (check_sentiment_decline c project sessions alerts)).
           map_of r ''severity'' \<in> {None, Some (PStr ''medium'')}"
proof -
  from check_sentiment_not_low_cases[OF assms, of alerts]
  consider "check_sentiment_decline c project sessions alerts = ([], alerts)"
    | conf where "check_sentiment_decline c project sessions alerts =
            ([fst (create_alert c project ''sentiment_decline'' ''medium'' conf None alerts)],
             snd (create_alert c project ''sentiment_decline'' ''medium'' conf None alerts))"
    by blast
  then show ?thesis
  proof cases
    case 1 then show ?thesis by simp
  next
    case 2
    show ?thesis unfolding 2
      using create_alert_medium_or_duplicate[of c project "''sentiment_decline''" conf None alerts]
      by simp
  qed
qed

text \<open>
  Claim C1, as amended. Let a run of \<open>_check_sentiment_decline\<close> find at least five
  completed, scored sessions of the project in its 14-day window, let \<open>a\<close> be the mean of
  their scores as the database returns it, a double, and let there be no active
  \<open>sentiment_decline\<close> alert of the project created in the last 24 hours. If \<open>a\<close> is below
  \<open>SENTIMENT_DECLINE_THRESHOLD\<close>, the double -0.3, the run creates one alert of type
  \<open>sentiment_decline\<close>, of severity \<open>critical\<close> when \<open>a < -0.5\<close> and \<open>high\<close> otherwise, with
  confidence \<open>min(1.0, abs(a) * 2)\<close>, and a later run within 24 hours of the creation that
  again finds five sessions of mean below the threshold reports that alert as \<open>duplicate\<close>
  and creates nothing. If \<open>a\<close> is not below the threshold, as for sessions of sentiment 0.2,
  the run reports no alert of severity \<open>critical\<close> or \<open>high\<close>.
\<close>

theorem C1_sentiment_decline:
  assumes "5 \<le> length (sentiment_recent_sessions c project sessions)"
      and "Avg (map ss_sentiment_score (sentiment_recent_sessions c project sessions)) = Some a"
      and "filter (dedup_window c project ''sentiment_decline'') alerts = []"
      and "5 \<le> length (sentiment_recent_sessions c' project sessions)"
      and "Avg (map ss_sentiment_score (sentiment_recent_sessions c' project sessions)) = Some a'"
      and "demo_now c \<le> demo_now c'" and "demo_now c' - hours24 \<le> wall_now c"
  shows "(a < SENTIMENT_DECLINE_THRESHOLD \<and> a' < SENTIMENT_DECLINE_THRESHOLD \<longrightarrow>
            (\<exists>alerts'.
               check_sentiment_decline c project sessions alerts =
                 ([[(''alert'', PStr ''created''), (''id'', PInt (int (fresh_id alerts))),
                    (''severity'', PStr (if a < - 0.5 then ''critical'' else ''high'')),
                    (''confidence'', PFloat (min 1 (fl (\<bar>a\<bar> * 2))))]], alerts') \<and>
               alerts' = alerts @ [new_alert c project ''sentiment_decline''
                                     (if a < - 0.5 then ''critical'' else ''high'')
                                     (min 1 (fl (\<bar>a\<bar> * 2))) None alerts] \<and>
               check_sentiment_decline c' project sessions alerts' =
                 ([[(''alert'', PStr ''duplicate''),
                    (''existing_id'', PInt (int (fresh_id alerts)))]], alerts'))) \<and>
         (\<not> a < SENTIMENT_DECLINE_THRESHOLD \<longrightarrow>
            (\<forall>r\<in>set (fst (check_sentiment_decline c project sessions alerts)).
               map_of r ''severity'' \<in> {None, Some (PStr ''medium'')}))"
proof (intro conjI impI)
  assume low: "a < SENTIMENT_DECLINE_THRESHOLD \<and> a' < SENTIMENT_DECLINE_THRESHOLD"
  then have la: "a < SENTIMENT_DECLINE_THRESHOLD" and la': "a' < SENTIMENT_DECLINE_THRESHOLD"
    by simp_all
  let ?sev = "if a < - 0.5 then ''critical'' else ''high''"
  let ?new = "new_alert c project ''sentiment_decline'' ?sev (min 1 (fl (\<bar>a\<bar> * 2))) None alerts"
  have r1: "check_sentiment_decline c project sessions alerts =
      ([[(''alert'', PStr ''created''), (''id'', PInt (int (fresh_id alerts))),
         (''severity'', PStr ?sev), (''confidence'', PFloat (min 1 (fl (\<bar>a\<bar> * 2))))]],
       alerts @ [?new])"
    unfolding check_sentiment_low[OF assms(1,2) la, of alerts] create_alert_fresh[OF assms(3)]
    by simp
  have r2: "check_sentiment_decline c' project sessions (alerts @ [?new]) =
      ([[(''alert'', PStr ''duplicate''), (''existing_id'', PInt (int (fresh_id alerts)))]],
       alerts @ [?new])"
    unfolding check_sentiment_low[OF assms(4,5) la', of "alerts @ [?new]"]
      create_alert_again[OF assms(3,6,7)]
    by simp
  show "\<exists>alerts'.
               check_sentiment_decline c project sessions alerts =
                 ([[(''alert'', PStr ''created''), (''id'', PInt (int (fresh_id alerts))),
                    (''severity'', PStr (if a < - 0.5 then ''critical'' else ''high'')),
                    (''confidence'', PFloat (min 1 (fl (\<bar>a\<bar> * 2))))]], alerts') \<and>
               alerts' = alerts @ [new_alert c project ''sentiment_decline''
                                     (if a < - 0.5 then ''critical'' else ''high'')
                                     (min 1 (fl (\<bar>a\<bar> * 2))) None alerts] \<and>
               check_sentiment_decline c' project sessions alerts' =
                 ([[(''alert'', PStr ''duplicate''),
                    (''existing_id'', PInt (int (fresh_id alerts)))]], alerts')"
    using r1 r2 by blast
next
  assume "\<not> a < SENTIMENT_DECLINE_THRESHOLD"
  then show "\<forall>r\<in>set (fst (check_sentiment_decline c project sessions alerts)).
               map_of r ''severity'' \<in> {None, Some (PStr ''medium'')}"
    using check_sentiment_not_low[OF assms(2)] by blast
qed

lemma ten_sessions_recent:
  "demo_today c = 20 \<Longrightarrow> sentiment_recent_sessions c 1 (ten_sessions s) =
     [scored_session 7 s, scored_session 8 s, scored_session 9 s, scored_session 10 s,
      scored_session 11 s, scored_session 12 s, scored_session 13 s, scored_session 14 s]"
  by (simp add: sentiment_recent_sessions_def ten_sessions_def scored_session_def
        pending_session_def Let_def)

lemma ten_sessions_avg_low:
  "Avg (map ss_sentiment_score
     [scored_session 7 (- 0.5), scored_session 8 (- 0.5), scored_session 9 (- 0.5),
      scored_session 10 (- 0.5), scored_session 11 (- 0.5), scored_session 12 (- 0.5),
      scored_session 13 (- 0.5), scored_session 14 (- 0.5)]) = Some (- 0.5)"
  by (simp add: Avg_def scored_session_def fsum_def fl_values)

lemma half_below_threshold: "- 0.5 < SENTIMENT_DECLINE_THRESHOLD"
  by (simp add: SENTIMENT_DECLINE_THRESHOLD_def fl_values)

theorem C1_sentiment_decline_witness:
  "5 \<le> length (sentiment_recent_sessions clock0 1 (ten_sessions (- 0.5))) \<and>
   Avg (map ss_sentiment_score (sentiment_recent_sessions clock0 1 (ten_sessions (- 0.5))))
     = Some (- 0.5) \<and>
   - 0.5 < SENTIMENT_DECLINE_THRESHOLD \<and>
   check_sentiment_decline clock0 1 (ten_sessions (- 0.5)) [] =
     ([[(''alert'', PStr ''created''), (''id'', PInt 1), (''severity'', PStr ''high''),
        (''confidence'', PFloat 1)]],
      [new_alert clock0 1 ''sentiment_decline'' ''high'' 1 None []]) \<and>
   check_sentiment_decline clock1 1 (ten_sessions (- 0.5))
       [new_alert clock0 1 ''sentiment_decline'' ''high'' 1 None []] =
     ([[(''alert'', PStr ''duplicate''), (''existing_id'', PInt 1)]],
      [new_alert clock0 1 ''sentiment_decline'' ''high'' 1 None []])"
proof -
  have t0: "demo_today clock0 = 20" and t1: "demo_today clock1 = 20"
    by (simp_all add: clock0_def clock1_def)
  have h1: "5 \<le> length (sentiment_recent_sessions clock0 1 (ten_sessions (- 0.5)))"
    unfolding ten_sessions_recent[OF t0] by simp
  have h2: "Avg (map ss_sentiment_score (sentiment_recent_sessions clock0 1 (ten_sessions (- 0.5))))
              = Some (- 0.5)"
    unfolding ten_sessions_recent[OF t0] by (rule ten_sessions_avg_low)
  have h3: "filter (dedup_window clock0 1 ''sentiment_decline'') [] = []" by simp
  have h4: "5 \<le> length (sentiment_recent_sessions clock1 1 (ten_sessions (- 0.5)))"
    unfolding ten_sessions_recent[OF t1] by simp
  have h5: "Avg (map ss_sentiment_score (sentiment_recent_sessions clock1 1 (ten_sessions (- 0.5))))
              = Some (- 0.5)"
    unfolding ten_sessions_recent[OF t1] by (rule ten_sessions_avg_low)
  have h6: "demo_now clock0 \<le> demo_now clock1" by (simp add: clock0_def clock1_def)
  have h7: "demo_now clock1 - hours24 \<le> wall_now clock0"
    by (simp add: clock0_def clock1_def hours24_def)
  show ?thesis
    using h1 h2 half_below_threshold C1_sentiment_decline[OF h1 h2 h3 h4 h5 h6 h7]
    by (simp add: fresh_id_def fl_values)
qed

text \<open>
  The scenario of claim C1: ten sessions in the window, eight completed, each with the
  double 0.2 for its sentiment. The mean is not below the threshold; the one alert that
  the run creates has severity \<open>medium\<close>, neither \<open>critical\<close> nor \<open>high\<close>.
\<close>

theorem C1_sentiment_decline_counterexample:
  "map (\<lambda>r. (map_of r ''alert'', map_of r ''severity''))
     (fst (check_sentiment_decline clock0 1 (ten_sessions (fl 0.2)) []))
   = [(Some (PStr ''created''), Some (PStr ''medium''))]"
proof -
  have t0: "demo_today clock0 = 20" by (simp add: clock0_def)
  show ?thesis
    unfolding check_sentiment_decline_def Let_def ten_sessions_recent[OF t0]
    by (simp add: scored_session_def Avg_def truthy_def SENTIMENT_DECLINE_THRESHOLD_def
          SENTIMENT_TREND_THRESHOLD_def clock0_def create_alert_def new_alert_def fresh_id_def
          Let_def fsum_def fl_values)
qed

section \<open>The burnout check\<close>

lemma burnout_loop_duplicates:
  assumes "first_alert (filter (dedup_window c project ''team_member_burnout'') db) = Some e"
  shows "burnout_loop c project sessions ms acc db =
           (acc @ map (\<lambda>m. [(''alert'', PStr ''duplicate''), (''existing_id'', PInt (int (ha_id e)))])
                    (filter (\<lambda>m. BURNOUT_INDICATOR_THRESHOLD \<le> calculate_burnout_score c m sessions) ms),
            db)"
proof (induction ms arbitrary: acc)
  case Nil
  show ?case by simp
next
  case (Cons m ms)
  show ?case
  proof (cases "BURNOUT_INDICATOR_THRESHOLD \<le> calculate_burnout_score c m sessions")
    case True
    then show ?thesis
      by (simp add: Let_def create_alert_duplicate[OF assms] Cons.IH)
  next
    case False
    then show ?thesis by (simp add: Let_def Cons.IH)
  qed
qed

lemma burnout_loop_step:
  assumes "BURNOUT_INDICATOR_THRESHOLD \<le> calculate_burnout_score c m sessions"
  shows "burnout_loop c project sessions (m # ms) acc db =
           (let (alert, db') =
                  create_alert c project ''team_member_burnout'' (burnout_severity c m sessions)
                    (burnout_confidence c m sessions) (Some (tm_id m)) db
            in burnout_loop c project sessions ms (acc @ [alert]) db')"
  using assms by (simp add: Let_def burnout_severity_def burnout_confidence_def)

lemma burnout_loop_fresh:
  assumes "filter (dedup_window c project ''team_member_burnout'') db = []"
      and "demo_now c - hours24 \<le> wall_now c"
  shows "burnout_loop c project sessions ms acc db =
           (case filter (\<lambda>m. BURNOUT_INDICATOR_THRESHOLD \<le> calculate_burnout_score c m sessions) ms of
              [] \<Rightarrow> (acc, db)
            | q # qs \<Rightarrow>
                (acc @ [(''alert'', PStr ''created''), (''id'', PInt (int (fresh_id db))),
                        (''severity'', PStr (burnout_severity c q sessions)),
                        (''confidence'', PFloat (burnout_confidence c q sessions))]
                     # map (\<lambda>m. [(''alert'', PStr ''duplicate''),
                                 (''existing_id'', PInt (int (fresh_id db)))]) qs,
                 db @ [new_alert c project ''team_member_burnout'' (burnout_severity c q sessions)
                         (burnout_confidence c q sessions) (Some (tm_id q)) db]))"
proof (induction ms arbitrary: acc)
  case Nil
  show ?case by simp
next
  case (Cons m ms)
  show ?case
  proof (cases "BURNOUT_INDICATOR_THRESHOLD \<le> calculate_burnout_score c m sessions")
    case True
    let ?new = "new_alert c project ''team_member_burnout'' (burnout_severity c m sessions)
                  (burnout_confidence c m sessions) (Some (tm_id m)) db"
    have w: "filter (dedup_window c project ''team_member_burnout'') (db @ [?new]) = [?new]"
      by (rule window_after_create[OF assms(1) _ assms(2)]) simp
    have f: "first_alert (filter (dedup_window c project ''team_member_burnout'') (db @ [?new]))
               = Some ?new"
      unfolding w by simp
    have id: "ha_id ?new = fresh_id db" by (simp add: new_alert_def)
    show ?thesis
      unfolding burnout_loop_step[OF True] create_alert_fresh[OF assms(1)]
      using True by (simp add: burnout_loop_duplicates[OF f] id del: burnout_loop.simps)
  next
    case False
    then show ?thesis by (simp add: Let_def Cons.IH)
  qed
qed

text \<open>
  Claim C10, as amended. The duplicate check keys on project and alert type among the
  active alerts created in the last 24 hours, and ignores the team member. Let one or more
  active members of the project reach the burnout threshold, \<open>q\<close> the first and \<open>qs\<close> the
  others, and let the creation time stamped by the wall clock lie within 24 hours of the
  engine's clock. If no such active alert exists, a run of the burnout check creates one
  alert, for \<open>q\<close>, reports every member of \<open>qs\<close> as \<open>duplicate\<close> of it, and leaves
  exactly that one active burnout alert of the project in the window. If one exists, the
  run creates nothing and reports every member, \<open>q\<close> included, as \<open>duplicate\<close>.
\<close>

theorem C10_burnout_dedup:
  assumes "qualifying c project members sessions = q # qs"
      and "demo_now c - hours24 \<le> wall_now c"
  shows "(filter (dedup_window c project ''team_member_burnout'') db = [] \<longrightarrow>
            check_team_member_burnout c project members sessions db =
              ([(''alert'', PStr ''created''), (''id'', PInt (int (fresh_id db))),
                (''severity'', PStr (burnout_severity c q sessions)),
                (''confidence'', PFloat (burnout_confidence c q sessions))]
                 # map (\<lambda>m. [(''alert'', PStr ''duplicate''),
                             (''existing_id'', PInt (int (fresh_id db)))]) qs,
               db @ [new_alert c project ''team_member_burnout'' (burnout_severity c q sessions)
                       (burnout_confidence c q sessions) (Some (tm_id q)) db]) \<and>
            filter (dedup_window c project ''team_member_burnout'')
              (snd (check_team_member_burnout c project members sessions db))
              = [new_alert c project ''team_member_burnout'' (burnout_severity c q sessions)
                   (burnout_confidence c q sessions) (Some (tm_id q)) db]) \<and>
         (filter (dedup_window c project ''team_member_burnout'') db \<noteq> [] \<longrightarrow>
            (\<exists>e\<in>set (filter (dedup_window c project ''team_member_burnout'') db).
               check_team_member_burnout c project members sessions db =
                 (map (\<lambda>m. [(''alert'', PStr ''duplicate''),
                            (''existing_id'', PInt (int (ha_id e)))]) (q # qs), db)))"
proof -
  let ?W = "dedup_window c project ''team_member_burnout''"
  let ?new = "new_alert c project ''team_member_burnout'' (burnout_severity c q sessions)
                (burnout_confidence c q sessions) (Some (tm_id q)) db"
  let ?created = "[(''alert'', PStr ''created''), (''id'', PInt (int (fresh_id db))),
                (''severity'', PStr (burnout_severity c q sessions)),
                (''confidence'', PFloat (burnout_confidence c q sessions))]"
  have q: "filter (\<lambda>m. BURNOUT_INDICATOR_THRESHOLD \<le> calculate_burnout_score c m sessions)
             (filter (\<lambda>m. tm_project m = project \<and> tm_is_active m) members) = q # qs"
    using assms(1) unfolding qualifying_def .
  have part1: "filter ?W db = [] \<longrightarrow>
      check_team_member_burnout c project members sessions db =
        (?created # map (\<lambda>m. [(''alert'', PStr ''duplicate''),
                                 (''existing_id'', PInt (int (fresh_id db)))]) qs, db @ [?new]) \<and>
      filter ?W (snd (check_team_member_burnout c project members sessions db)) = [?new]"
  proof
    assume e: "filter ?W db = []"
    have r: "check_team_member_burnout c project members sessions db =
        (?created # map (\<lambda>m. [(''alert'', PStr ''duplicate''),
                                 (''existing_id'', PInt (int (fresh_id db)))]) qs, db @ [?new])"
      unfolding check_team_member_burnout_def Let_def burnout_loop_fresh[OF e assms(2)] q
      by simp
    have w: "filter ?W (db @ [?new]) = [?new]"
      by (rule window_after_create[OF e _ assms(2)]) simp
    show "check_team_member_burnout c project members sessions db =
        (?created # map (\<lambda>m. [(''alert'', PStr ''duplicate''),
                                 (''existing_id'', PInt (int (fresh_id db)))]) qs, db @ [?new]) \<and>
      filter ?W (snd (check_team_member_burnout c project members sessions db)) = [?new]"
      unfolding r using w by simp
  qed
  have part2: "filter ?W db \<noteq> [] \<longrightarrow>
      (\<exists>e\<in>set (filter ?W db).
         check_team_member_burnout c project members sessions db =
           (map (\<lambda>m. [(''alert'', PStr ''duplicate''),
                      (''existing_id'', PInt (int (ha_id e)))]) (q # qs), db))"
  proof
    assume ne: "filter ?W db \<noteq> []"
    then obtain e where e: "first_alert (filter ?W db) = Some e"
      using first_alert_None[of "filter ?W db"] by (cases "first_alert (filter ?W db)") auto
    have mem: "e \<in> set (filter ?W db)" using first_alert_in[OF e] .
    have "check_team_member_burnout c project members sessions db =
          (map (\<lambda>m. [(''alert'', PStr ''duplicate''), (''existing_id'', PInt (int (ha_id e)))])
             (q # qs), db)"
      unfolding check_team_member_burnout_def Let_def burnout_loop_duplicates[OF e] q by simp
    with mem show "\<exists>e\<in>set (filter ?W db).
         check_team_member_burnout c project members sessions db =
           (map (\<lambda>m. [(''alert'', PStr ''duplicate''),
                      (''existing_id'', PInt (int (ha_id e)))]) (q # qs), db)"
      by blast
  qed
  from part1 part2 show ?thesis by (rule conjI)
qed

lemma worn_quality2: "assess_content_quality worn_session2 = 0"
  by (simp add: assess_content_quality_def worn_session_def worn_session2_def Let_def py_strip_def
       is_space_def py_lower_def lower_char_def)

lemma worn_score1: "calculate_burnout_score clock0 member1 [worn_session, worn_session2] = 5"
  unfolding calculate_burnout_score_def Let_def
  by (simp add: worn_quality worn_session2_def)
     (simp add: worn_session_def clock0_def member1_def Avg_def truthy_def fsum_def fl_values)

lemma worn_score2: "calculate_burnout_score clock0 member2 [worn_session, worn_session2] = 5"
  unfolding calculate_burnout_score_def Let_def
  by (simp add: worn_quality2 worn_session_def)
     (simp add: worn_session2_def worn_session_def clock0_def member2_def Avg_def truthy_def
        fsum_def fl_values)

lemma worn_qualifying:
  "qualifying clock0 1 [member1, member2] [worn_session, worn_session2] = [member1, member2]"
  unfolding qualifying_def
  by (simp add: worn_score1 worn_score2 BURNOUT_INDICATOR_THRESHOLD_def)
     (simp add: member1_def member2_def)

lemma member1_id: "tm_id member1 = 1"
  by (simp add: member1_def)

theorem C10_burnout_dedup_witness:
  "qualifying clock0 1 [member1, member2] [worn_session, worn_session2] = [member1, member2] \<and>
   demo_now clock0 - hours24 \<le> wall_now clock0 \<and>
   check_team_member_burnout clock0 1 [member1, member2] [worn_session, worn_session2] [] =
     ([[(''alert'', PStr ''created''), (''id'', PInt 1), (''severity'', PStr ''critical''),
        (''confidence'', PFloat 1)],
       [(''alert'', PStr ''duplicate''), (''existing_id'', PInt 1)]],
      [new_alert clock0 1 ''team_member_burnout'' ''critical'' 1 (Some 1) []])"
proof -
  have w: "demo_now clock0 - hours24 \<le> wall_now clock0" by (simp add: clock0_def hours24_def)
  show ?thesis
    using worn_qualifying w C10_burnout_dedup[OF worn_qualifying w, of "[]"]
    by (simp add: burnout_severity_def burnout_confidence_def worn_score1 fresh_id_def member1_id
          fl_values)
qed

text \<open>
  An acknowledged burnout alert of the project, one hour old, does not stop the creation
  of another: after the run, two \<open>team_member_burnout\<close> alerts of the project were
  created within the same 24 hours.
\<close>

theorem C10_burnout_dedup_counterexample:
  "length (filter (\<lambda>a. ha_project a = 1 \<and> ha_alert_type a = ''team_member_burnout'' \<and>
                       ha_created_at a \<ge> demo_now clock0 - hours24)
             (snd (check_team_member_burnout clock0 1 [member1, member2]
                     [worn_session, worn_session2] [acknowledged_alert]))) = 2"
proof -
  have w: "demo_now clock0 - hours24 \<le> wall_now clock0" by (simp add: clock0_def hours24_def)
  have e: "filter (dedup_window clock0 1 ''team_member_burnout'') [acknowledged_alert] = []"
    by (simp add: dedup_window_def acknowledged_alert_def)
  have "check_team_member_burnout clock0 1 [member1, member2] [worn_session, worn_session2]
          [acknowledged_alert]
        = ([[(''alert'', PStr ''created''), (''id'', PInt 2), (''severity'', PStr ''critical''),
             (''confidence'', PFloat 1)],
            [(''alert'', PStr ''duplicate''), (''existing_id'', PInt 2)]],
           [acknowledged_alert,
            new_alert clock0 1 ''team_member_burnout'' ''critical'' 1 (Some 1) [acknowledged_alert]])"
    unfolding check_team_member_burnout_def Let_def burnout_loop_fresh[OF e w]
    using worn_qualifying unfolding qualifying_def
    by (simp add: burnout_severity_def burnout_confidence_def worn_score1 fresh_id_def
          member1_id fl_values) (simp add: acknowledged_alert_def)
  then show ?thesis
    by (simp add: new_alert_def acknowledged_alert_def clock0_def hours24_def)
qed

end
